theory Spec2Isabelle
  imports Main
begin

section \<open>Response model\<close>

text \<open>
  The status code works on the API response model of package \<open>models\<close>. Its type
  declarations are not part of the sources at hand, so every type below records exactly
  the members the status code reads or writes. A Go pointer that may be \<open>nil\<close> is an
  \<open>option\<close>; an \<open>error\<close> is the text its \<open>Error()\<close> method returns.
\<close>

text \<open>
  The state member of a status is a string that the API schema restricts to the four
  values \<open>models.StatusStateOk\<close>, \<open>StatusStateWarning\<close>, \<open>StatusStateFailure\<close> and
  \<open>StatusStateDisabled\<close>.
\<close>

datatype StatusState =
    StatusStateOk
  | StatusStateWarning
  | StatusStateFailure
  | StatusStateDisabled

record Status =
  State :: StatusState
  Msg :: string

record K8sStatus =
  K8sState :: StatusState
  K8sMsg :: string
  K8sAPIVersions :: "string list"

record ClusterStatus =
  Self :: string
  CiliumHealth :: "Status option"

record ControllerStatusStatus =
  LastFailureMsg :: string

record ControllerStatus =
  Name :: string
  CStatus :: "ControllerStatusStatus option"

text \<open>
  The status code never looks inside the following models: it only moves them from a
  probe result into the response. Each is an uninterpreted token.
\<close>

datatype IPAMStatus = IPAMStatus nat
datatype MonitorStatus = MonitorStatus nat
datatype ProxyStatus = ProxyStatus nat
datatype ClusterMeshStatus = ClusterMeshStatus nat
datatype HubbleStatus = HubbleStatus nat
datatype EncryptionStatus = EncryptionStatus nat
datatype KubeProxyReplacement = KubeProxyReplacement nat
datatype StaticInfo = StaticInfo nat

text \<open>
  \<open>models.StatusResponse\<close>, with the members named in the sources. \<open>Controllers\<close> is a
  slice (\<open>None\<close> is the nil slice) whose entries the code dereferences without a nil
  check and which are therefore taken to be non-nil, \<open>Stale\<close> a map from probe name to
  the start time of the stale run (an association list; the code only takes its length),
  \<open>AttachMode\<close> and \<open>DatapathMode\<close> are strings, every other member is a pointer.
\<close>

record StatusResponse =
  AttachMode :: string
  AuthCertificateProvider :: "Status option"
  BandwidthManager :: "StaticInfo option"
  BpfMaps :: "StaticInfo option"
  Cilium :: "Status option"
  ClockSource :: "StaticInfo option"
  Cluster :: "ClusterStatus option"
  ClusterMesh :: "ClusterMeshStatus option"
  CniChaining :: "StaticInfo option"
  CniFile :: "Status option"
  ContainerRuntime :: "Status option"
  Controllers :: "ControllerStatus list option"
  DatapathMode :: string
  Encryption :: "EncryptionStatus option"
  HostFirewall :: "StaticInfo option"
  Hubble :: "HubbleStatus option"
  IPV4BigTCP :: "StaticInfo option"
  IPV6BigTCP :: "StaticInfo option"
  IdentityRange :: "StaticInfo option"
  Ipam :: "IPAMStatus option"
  KubeProxyReplacementF :: "KubeProxyReplacement option"
  Kubernetes :: "K8sStatus option"
  Kvstore :: "Status option"
  Masquerading :: "StaticInfo option"
  NodeMonitor :: "MonitorStatus option"
  Proxy :: "ProxyStatus option"
  Routing :: "StaticInfo option"
  Srv6 :: "StaticInfo option"
  Stale :: "(string \<times> int) list"

text \<open>The zero value of the struct: \<open>var sr models.StatusResponse\<close>.\<close>

definition zeroStatusResponse :: StatusResponse where
  "zeroStatusResponse =
     \<lparr>AttachMode = [], AuthCertificateProvider = None, BandwidthManager = None,
      BpfMaps = None, Cilium = None, ClockSource = None, Cluster = None,
      ClusterMesh = None, CniChaining = None, CniFile = None, ContainerRuntime = None,
      Controllers = None, DatapathMode = [], Encryption = None, HostFirewall = None,
      Hubble = None, IPV4BigTCP = None, IPV6BigTCP = None, IdentityRange = None,
      Ipam = None, KubeProxyReplacementF = None, Kubernetes = None, Kvstore = None,
      Masquerading = None, NodeMonitor = None, Proxy = None, Routing = None,
      Srv6 = None, Stale = []\<rparr>"

text \<open>\<open>new(models.ClusterStatus)\<close> and \<open>&models.ClusterStatus{}\<close>.\<close>

definition zeroClusterStatus :: ClusterStatus where
  "zeroClusterStatus = \<lparr>Self = [], CiliumHealth = None\<rparr>"

section \<open>The daemon\<close>

text \<open>
  The part of \<open>Daemon\<close> the status code depends on: the live aggregate
  \<open>d.statusResponse\<close>, whether \<open>d.clientset.IsEnabled()\<close> holds, and whether
  \<open>d.ciliumHealth\<close> is non-nil.
\<close>

record Daemon =
  statusResponse :: StatusResponse
  clientsetEnabled :: bool
  ciliumHealthPresent :: bool

text \<open>What \<open>version.GetCiliumVersion()\<close> returns, as far as it is used.\<close>

record CiliumVersion =
  Version :: string
  Revision :: string

section \<open>getStatus\<close>

text \<open>\<open>fmt.Sprintf("%s (v%s-%s)", ver.Version, ver.Version, ver.Revision)\<close>\<close>

definition ciliumVer :: "CiliumVersion \<Rightarrow> string" where
  "ciliumVer ver = Version ver @ '' (v'' @ Version ver @ ''-'' @ Revision ver @ '')''"

text \<open>\<open>fmt.Sprintf("%s    %s", ciliumVer, msg)\<close>\<close>

definition withBanner :: "CiliumVersion \<Rightarrow> string \<Rightarrow> string" where
  "withBanner ver msg = ciliumVer ver @ ''    '' @ msg"

text \<open>
  The loop of the brief branch over \<open>d.statusResponse.Controllers\<close>: an entry without
  status is skipped (\<open>continue\<close>), the first entry with a non-empty
  \<open>LastFailureMsg\<close> is appended to \<open>minimalControllers\<close> and ends the loop
  (\<open>break\<close>). The accumulator starts as the nil slice.
\<close>

fun minimalControllersLoop ::
  "ControllerStatus list \<Rightarrow> ControllerStatus list option \<Rightarrow> ControllerStatus list option"
where
  "minimalControllersLoop [] acc = acc"
| "minimalControllersLoop (c # cs) acc =
     (case CStatus c of
        None \<Rightarrow> minimalControllersLoop cs acc
      | Some s \<Rightarrow>
          if LastFailureMsg s \<noteq> []
          then Some ((case acc of None \<Rightarrow> [] | Some xs \<Rightarrow> xs) @ [c])
          else minimalControllersLoop cs acc)"

definition minimalControllers :: "StatusResponse \<Rightarrow> ControllerStatus list option" where
  "minimalControllers live =
     (case Controllers live of
        None \<Rightarrow> None
      | Some cs \<Rightarrow> minimalControllersLoop cs None)"

text \<open>
  The copy made before the rollup. Brief: a fresh \<open>ClusterStatus\<close> that receives a
  copy of the live \<open>Cluster.CiliumHealth\<close> when both pointers are set, and the minimal
  controller list. Otherwise \<open>DeepCopy\<close> of the live response, which as a value is the
  response itself.
\<close>

definition csCopy :: "StatusResponse \<Rightarrow> ClusterStatus" where
  "csCopy live =
     (case Cluster live of
        None \<Rightarrow> zeroClusterStatus
      | Some c \<Rightarrow>
          (case CiliumHealth c of
             None \<Rightarrow> zeroClusterStatus
           | Some h \<Rightarrow> zeroClusterStatus\<lparr>CiliumHealth := Some h\<rparr>))"

definition snapshot :: "StatusResponse \<Rightarrow> bool \<Rightarrow> StatusResponse" where
  "snapshot live brief =
     (if brief
      then zeroStatusResponse\<lparr>Cluster := Some (csCopy live),
                              Controllers := minimalControllers live\<rparr>
      else live)"

text \<open>
  The \<open>switch\<close> that computes \<open>sr.Cilium\<close> has no fallthrough: the first case whose
  condition holds is taken. Each case is a function that returns the status it assigns
  when its condition holds. The first case looks at the stale map of the copy, every
  later case at the live response \<open>d.statusResponse\<close>.
\<close>

definition caseStale :: "(string \<times> int) list \<Rightarrow> CiliumVersion \<Rightarrow> Status option" where
  "caseStale stale ver =
     (if length stale > 0
      then Some \<lparr>State = StatusStateWarning, Msg = withBanner ver ''Stale status data''\<rparr>
      else None)"

definition caseKvstore :: "Daemon \<Rightarrow> CiliumVersion \<Rightarrow> Status option" where
  "caseKvstore d ver =
     (case Kvstore (statusResponse d) of
        None \<Rightarrow> None
      | Some k \<Rightarrow>
          if State k \<noteq> StatusStateOk \<and> State k \<noteq> StatusStateDisabled
          then Some \<lparr>State = State k,
                     Msg = withBanner ver (''Kvstore service is not ready: '' @ Msg k)\<rparr>
          else None)"

definition caseContainerRuntime :: "Daemon \<Rightarrow> CiliumVersion \<Rightarrow> Status option" where
  "caseContainerRuntime d ver =
     (case ContainerRuntime (statusResponse d) of
        None \<Rightarrow> None
      | Some c \<Rightarrow>
          if State c \<noteq> StatusStateOk
          then Some \<lparr>State = State c,
                     Msg = withBanner ver
                             (if State c = StatusStateDisabled
                              then ''Container runtime is disabled''
                              else ''Container runtime is not ready: '' @ Msg c)\<rparr>
          else None)"

definition caseKubernetes :: "Daemon \<Rightarrow> CiliumVersion \<Rightarrow> bool \<Rightarrow> Status option" where
  "caseKubernetes d ver requireK8sConnectivity =
     (if clientsetEnabled d
      then (case Kubernetes (statusResponse d) of
              None \<Rightarrow> None
            | Some k \<Rightarrow>
                if K8sState k \<noteq> StatusStateOk \<and> requireK8sConnectivity
                then Some \<lparr>State = K8sState k,
                           Msg = withBanner ver
                                   (''Kubernetes service is not ready: '' @ K8sMsg k)\<rparr>
                else None)
      else None)"

definition caseCniFile :: "Daemon \<Rightarrow> CiliumVersion \<Rightarrow> Status option" where
  "caseCniFile d ver =
     (case CniFile (statusResponse d) of
        None \<Rightarrow> None
      | Some c \<Rightarrow>
          if State c = StatusStateFailure
          then Some \<lparr>State = StatusStateFailure,
                     Msg = withBanner ver (''Could not write CNI config file: '' @ Msg c)\<rparr>
          else None)"

definition caseDefault :: "CiliumVersion \<Rightarrow> Status" where
  "caseDefault ver = \<lparr>State = StatusStateOk, Msg = ciliumVer ver\<rparr>"

definition rollup ::
  "Daemon \<Rightarrow> (string \<times> int) list \<Rightarrow> CiliumVersion \<Rightarrow> bool \<Rightarrow> Status"
where
  "rollup d stale ver requireK8sConnectivity =
     (case caseStale stale ver of Some v \<Rightarrow> v | None \<Rightarrow>
      (case caseKvstore d ver of Some v \<Rightarrow> v | None \<Rightarrow>
       (case caseContainerRuntime d ver of Some v \<Rightarrow> v | None \<Rightarrow>
        (case caseKubernetes d ver requireK8sConnectivity of Some v \<Rightarrow> v | None \<Rightarrow>
         (case caseCniFile d ver of Some v \<Rightarrow> v | None \<Rightarrow>
          caseDefault ver)))))"

text \<open>\<open>strfmt.DateTime(startTime)\<close> converts the type and keeps the instant.\<close>

definition DateTime :: "int \<Rightarrow> int" where
  "DateTime startTime = startTime"

text \<open>
  \<open>getStatus\<close>. The stale probes come from the collector
  (\<open>d.statusCollector.GetStaleProbes()\<close>) and are an argument here, as is the version.
\<close>

definition getStatus ::
  "Daemon \<Rightarrow> (string \<times> int) list \<Rightarrow> CiliumVersion \<Rightarrow> bool \<Rightarrow> bool \<Rightarrow> StatusResponse"
where
  "getStatus d staleProbes ver brief requireK8sConnectivity =
     (let stale = map (\<lambda>(probe, startTime). (probe, DateTime startTime)) staleProbes;
          sr = (snapshot (statusResponse d) brief)\<lparr>Stale := stale\<rparr>
      in sr\<lparr>Cilium := Some (rollup d (Stale sr) ver requireK8sConnectivity)\<rparr>)"

section \<open>Probe results and update sinks\<close>

text \<open>
  \<open>status.Status\<close> as the sinks see it: \<open>Data\<close> is an \<open>interface{}\<close>, that is the nil
  interface or a value together with its dynamic type; \<open>Err\<close> is nil or an error. A
  pointer payload may itself be a nil pointer of its type, for which a checked type
  assertion still succeeds.
\<close>

datatype Data =
    DataNil
  | DataStatus "Status option"
  | DataK8sStatus "K8sStatus option"
  | DataIPAMStatus "IPAMStatus option"
  | DataMonitorStatus "MonitorStatus option"
  | DataClusterStatus "ClusterStatus option"
  | DataProxyStatus "ProxyStatus option"
  | DataControllerStatuses "ControllerStatus list option"
  | DataClusterMeshStatus "ClusterMeshStatus option"
  | DataHubbleStatus "HubbleStatus option"
  | DataEncryptionStatus "EncryptionStatus option"
  | DataKubeProxyReplacement "KubeProxyReplacement option"
  | DataOther nat

record status_Status =
  Data :: Data
  Err :: "string option"

text \<open>The probes registered by \<open>startStatusCollector\<close>, in the order of the slice.\<close>

datatype Probe =
    ProbeKvstore
  | ProbeKubernetes
  | ProbeIpam
  | ProbeNodeMonitor
  | ProbeCluster
  | ProbeCiliumHealth
  | ProbeL7Proxy
  | ProbeControllers
  | ProbeClustermesh
  | ProbeHubble
  | ProbeEncryption
  | ProbeKubeProxyReplacement
  | ProbeAuthCertProvider
  | ProbeCniConfig

definition probes :: "Probe list" where
  "probes =
     [ProbeKvstore, ProbeKubernetes, ProbeIpam, ProbeNodeMonitor, ProbeCluster,
      ProbeCiliumHealth, ProbeL7Proxy, ProbeControllers, ProbeClustermesh, ProbeHubble,
      ProbeEncryption, ProbeKubeProxyReplacement, ProbeAuthCertProvider, ProbeCniConfig]"

definition probeName :: "Probe \<Rightarrow> string" where
  "probeName p =
     (case p of
        ProbeKvstore \<Rightarrow> ''kvstore''
      | ProbeKubernetes \<Rightarrow> ''kubernetes''
      | ProbeIpam \<Rightarrow> ''ipam''
      | ProbeNodeMonitor \<Rightarrow> ''node-monitor''
      | ProbeCluster \<Rightarrow> ''cluster''
      | ProbeCiliumHealth \<Rightarrow> ''cilium-health''
      | ProbeL7Proxy \<Rightarrow> ''l7-proxy''
      | ProbeControllers \<Rightarrow> ''controllers''
      | ProbeClustermesh \<Rightarrow> ''clustermesh''
      | ProbeHubble \<Rightarrow> ''hubble''
      | ProbeEncryption \<Rightarrow> ''encryption''
      | ProbeKubeProxyReplacement \<Rightarrow> ''kube-proxy-replacement''
      | ProbeAuthCertProvider \<Rightarrow> ''auth-cert-provider''
      | ProbeCniConfig \<Rightarrow> ''cni-config'')"

text \<open>A run-time panic of the Go program.\<close>

datatype GoPanic = NilPointerDereference

text \<open>Assignment to one member of \<open>d.statusResponse\<close>.\<close>

definition updResponse :: "(StatusResponse \<Rightarrow> StatusResponse) \<Rightarrow> Daemon \<Rightarrow> Daemon" where
  "updResponse f d = d\<lparr>statusResponse := f (statusResponse d)\<rparr>"

text \<open>
  The sinks, one per probe. Each holds \<open>statusCollectMutex\<close> for its whole body, so a
  sink is one atomic step on the daemon.
\<close>

definition kvstoreOnStatusUpdate :: "Daemon \<Rightarrow> status_Status \<Rightarrow> Daemon" where
  "kvstoreOnStatusUpdate d status =
     (case Err status of
        Some e \<Rightarrow>
          updResponse (\<lambda>r. r\<lparr>Kvstore := Some \<lparr>State = StatusStateFailure, Msg = e\<rparr>\<rparr>) d
      | None \<Rightarrow>
          (case Data status of
             DataStatus kvstore \<Rightarrow> updResponse (\<lambda>r. r\<lparr>Kvstore := kvstore\<rparr>) d
           | _ \<Rightarrow> d))"

definition kubernetesOnStatusUpdate :: "Daemon \<Rightarrow> status_Status \<Rightarrow> Daemon" where
  "kubernetesOnStatusUpdate d status =
     (case Err status of
        Some e \<Rightarrow>
          updResponse
            (\<lambda>r. r\<lparr>Kubernetes :=
                     Some \<lparr>K8sState = StatusStateFailure, K8sMsg = e, K8sAPIVersions = []\<rparr>\<rparr>) d
      | None \<Rightarrow>
          (case Data status of
             DataK8sStatus s \<Rightarrow> updResponse (\<lambda>r. r\<lparr>Kubernetes := s\<rparr>) d
           | _ \<Rightarrow> d))"

definition ipamOnStatusUpdate :: "Daemon \<Rightarrow> status_Status \<Rightarrow> Daemon" where
  "ipamOnStatusUpdate d status =
     (if Err status = None
      then (case Data status of
              DataIPAMStatus s \<Rightarrow> updResponse (\<lambda>r. r\<lparr>Ipam := s\<rparr>) d
            | _ \<Rightarrow> d)
      else d)"

definition nodeMonitorOnStatusUpdate :: "Daemon \<Rightarrow> status_Status \<Rightarrow> Daemon" where
  "nodeMonitorOnStatusUpdate d status =
     (if Err status = None
      then (case Data status of
              DataMonitorStatus s \<Rightarrow> updResponse (\<lambda>r. r\<lparr>NodeMonitor := s\<rparr>) d
            | _ \<Rightarrow> d)
      else d)"

text \<open>
  The cluster sink keeps the \<open>CiliumHealth\<close> of a cluster status that is already
  there by writing it into the payload \<open>s\<close> first. That write dereferences \<open>s\<close>, which
  panics when the payload is a nil \<open>*models.ClusterStatus\<close>.
\<close>

definition clusterOnStatusUpdate :: "Daemon \<Rightarrow> status_Status \<Rightarrow> GoPanic + Daemon" where
  "clusterOnStatusUpdate d status =
     (if Err status = None
      then (case Data status of
              DataClusterStatus s \<Rightarrow>
                (case Cluster (statusResponse d) of
                   Some live \<Rightarrow>
                     (case s of
                        None \<Rightarrow> Inl NilPointerDereference
                      | Some sv \<Rightarrow>
                          Inr (updResponse
                                 (\<lambda>r. r\<lparr>Cluster :=
                                          Some (sv\<lparr>CiliumHealth := CiliumHealth live\<rparr>)\<rparr>) d))
                 | None \<Rightarrow> Inr (updResponse (\<lambda>r. r\<lparr>Cluster := s\<rparr>) d))
            | _ \<Rightarrow> Inr d)
      else Inr d)"

text \<open>
  The cilium-health sink returns at once when \<open>d.ciliumHealth\<close> is nil. Otherwise it
  first allocates an empty cluster status if there is none, then writes the
  \<open>CiliumHealth\<close> member of the cluster status in place.
\<close>

definition setCiliumHealth :: "Status option \<Rightarrow> StatusResponse \<Rightarrow> StatusResponse" where
  "setCiliumHealth h r =
     (case Cluster r of
        None \<Rightarrow> r
      | Some c \<Rightarrow> r\<lparr>Cluster := Some (c\<lparr>CiliumHealth := h\<rparr>)\<rparr>)"

definition ciliumHealthOnStatusUpdate :: "Daemon \<Rightarrow> status_Status \<Rightarrow> Daemon" where
  "ciliumHealthOnStatusUpdate d status =
     (if \<not> ciliumHealthPresent d then d
      else
        let d1 = (if Cluster (statusResponse d) = None
                  then updResponse (\<lambda>r. r\<lparr>Cluster := Some zeroClusterStatus\<rparr>) d
                  else d)
        in (case Err status of
              Some e \<Rightarrow>
                updResponse
                  (setCiliumHealth (Some \<lparr>State = StatusStateFailure, Msg = e\<rparr>)) d1
            | None \<Rightarrow>
                (case Data status of
                   DataStatus s \<Rightarrow> updResponse (setCiliumHealth s) d1
                 | _ \<Rightarrow> d1)))"

definition l7ProxyOnStatusUpdate :: "Daemon \<Rightarrow> status_Status \<Rightarrow> Daemon" where
  "l7ProxyOnStatusUpdate d status =
     (if Err status = None
      then (case Data status of
              DataProxyStatus s \<Rightarrow> updResponse (\<lambda>r. r\<lparr>Proxy := s\<rparr>) d
            | _ \<Rightarrow> d)
      else d)"

definition controllersOnStatusUpdate :: "Daemon \<Rightarrow> status_Status \<Rightarrow> Daemon" where
  "controllersOnStatusUpdate d status =
     (if Err status = None
      then (case Data status of
              DataControllerStatuses s \<Rightarrow> updResponse (\<lambda>r. r\<lparr>Controllers := s\<rparr>) d
            | _ \<Rightarrow> d)
      else d)"

definition clustermeshOnStatusUpdate :: "Daemon \<Rightarrow> status_Status \<Rightarrow> Daemon" where
  "clustermeshOnStatusUpdate d status =
     (if Err status = None
      then (case Data status of
              DataClusterMeshStatus s \<Rightarrow> updResponse (\<lambda>r. r\<lparr>ClusterMesh := s\<rparr>) d
            | _ \<Rightarrow> d)
      else d)"

definition hubbleOnStatusUpdate :: "Daemon \<Rightarrow> status_Status \<Rightarrow> Daemon" where
  "hubbleOnStatusUpdate d status =
     (if Err status = None
      then (case Data status of
              DataHubbleStatus s \<Rightarrow> updResponse (\<lambda>r. r\<lparr>Hubble := s\<rparr>) d
            | _ \<Rightarrow> d)
      else d)"

definition encryptionOnStatusUpdate :: "Daemon \<Rightarrow> status_Status \<Rightarrow> Daemon" where
  "encryptionOnStatusUpdate d status =
     (if Err status = None
      then (case Data status of
              DataEncryptionStatus s \<Rightarrow> updResponse (\<lambda>r. r\<lparr>Encryption := s\<rparr>) d
            | _ \<Rightarrow> d)
      else d)"

definition kubeProxyReplacementOnStatusUpdate :: "Daemon \<Rightarrow> status_Status \<Rightarrow> Daemon" where
  "kubeProxyReplacementOnStatusUpdate d status =
     (if Err status = None
      then (case Data status of
              DataKubeProxyReplacement s \<Rightarrow>
                updResponse (\<lambda>r. r\<lparr>KubeProxyReplacementF := s\<rparr>) d
            | _ \<Rightarrow> d)
      else d)"

definition authCertProviderOnStatusUpdate :: "Daemon \<Rightarrow> status_Status \<Rightarrow> Daemon" where
  "authCertProviderOnStatusUpdate d status =
     (if Err status = None
      then (case Data status of
              DataStatus s \<Rightarrow> updResponse (\<lambda>r. r\<lparr>AuthCertificateProvider := s\<rparr>) d
            | _ \<Rightarrow> d)
      else d)"

definition cniConfigOnStatusUpdate :: "Daemon \<Rightarrow> status_Status \<Rightarrow> Daemon" where
  "cniConfigOnStatusUpdate d status =
     (if Err status = None
      then (case Data status of
              DataStatus s \<Rightarrow> updResponse (\<lambda>r. r\<lparr>CniFile := s\<rparr>) d
            | _ \<Rightarrow> d)
      else d)"

text \<open>The \<open>OnStatusUpdate\<close> member of each registered probe.\<close>

definition OnStatusUpdate :: "Probe \<Rightarrow> Daemon \<Rightarrow> status_Status \<Rightarrow> GoPanic + Daemon" where
  "OnStatusUpdate p d status =
     (case p of
        ProbeKvstore \<Rightarrow> Inr (kvstoreOnStatusUpdate d status)
      | ProbeKubernetes \<Rightarrow> Inr (kubernetesOnStatusUpdate d status)
      | ProbeIpam \<Rightarrow> Inr (ipamOnStatusUpdate d status)
      | ProbeNodeMonitor \<Rightarrow> Inr (nodeMonitorOnStatusUpdate d status)
      | ProbeCluster \<Rightarrow> clusterOnStatusUpdate d status
      | ProbeCiliumHealth \<Rightarrow> Inr (ciliumHealthOnStatusUpdate d status)
      | ProbeL7Proxy \<Rightarrow> Inr (l7ProxyOnStatusUpdate d status)
      | ProbeControllers \<Rightarrow> Inr (controllersOnStatusUpdate d status)
      | ProbeClustermesh \<Rightarrow> Inr (clustermeshOnStatusUpdate d status)
      | ProbeHubble \<Rightarrow> Inr (hubbleOnStatusUpdate d status)
      | ProbeEncryption \<Rightarrow> Inr (encryptionOnStatusUpdate d status)
      | ProbeKubeProxyReplacement \<Rightarrow> Inr (kubeProxyReplacementOnStatusUpdate d status)
      | ProbeAuthCertProvider \<Rightarrow> Inr (authCertProviderOnStatusUpdate d status)
      | ProbeCniConfig \<Rightarrow> Inr (cniConfigOnStatusUpdate d status))"

section \<open>The rollup as the specification words it\<close>

text \<open>
  The specification describes the rollup as a list of conditions in priority order,
  each with its verdict, of which the first that holds decides; when none holds the
  verdict is OK with the version banner alone. The fourth condition is the gate of the
  code, which asks for an enabled client set besides the caller's request.
\<close>

fun firstMatching :: "(bool \<times> 'a) list \<Rightarrow> 'a \<Rightarrow> 'a" where
  "firstMatching [] dflt = dflt"
| "firstMatching ((g, v) # bs) dflt = (if g then v else firstMatching bs dflt)"

definition isPresentAnd :: "'a option \<Rightarrow> ('a \<Rightarrow> bool) \<Rightarrow> bool" where
  "isPresentAnd x P = (case x of None \<Rightarrow> False | Some v \<Rightarrow> P v)"

definition priorityOrder ::
  "Daemon \<Rightarrow> (string \<times> int) list \<Rightarrow> CiliumVersion \<Rightarrow> bool \<Rightarrow> (bool \<times> Status) list"
where
  "priorityOrder d stale ver requireK8sConnectivity =
     (let live = statusResponse d in
      [(stale \<noteq> [],
        \<lparr>State = StatusStateWarning, Msg = ciliumVer ver @ ''    '' @ ''Stale status data''\<rparr>),
       (isPresentAnd (Kvstore live)
          (\<lambda>k. State k \<noteq> StatusStateOk \<and> State k \<noteq> StatusStateDisabled),
        \<lparr>State = State (the (Kvstore live)),
         Msg = ciliumVer ver @ ''    '' @ ''Kvstore service is not ready: ''
                 @ Msg (the (Kvstore live))\<rparr>),
       (isPresentAnd (ContainerRuntime live) (\<lambda>c. State c \<noteq> StatusStateOk),
        \<lparr>State = State (the (ContainerRuntime live)),
         Msg = ciliumVer ver @ ''    '' @
                 (if State (the (ContainerRuntime live)) = StatusStateDisabled
                  then ''Container runtime is disabled''
                  else ''Container runtime is not ready: ''
                         @ Msg (the (ContainerRuntime live)))\<rparr>),
       (clientsetEnabled d \<and> requireK8sConnectivity
          \<and> isPresentAnd (Kubernetes live) (\<lambda>k. K8sState k \<noteq> StatusStateOk),
        \<lparr>State = K8sState (the (Kubernetes live)),
         Msg = ciliumVer ver @ ''    '' @ ''Kubernetes service is not ready: ''
                 @ K8sMsg (the (Kubernetes live))\<rparr>),
       (isPresentAnd (CniFile live) (\<lambda>c. State c = StatusStateFailure),
        \<lparr>State = StatusStateFailure,
         Msg = ciliumVer ver @ ''    '' @ ''Could not write CNI config file: ''
                 @ Msg (the (CniFile live))\<rparr>)])"

section \<open>Example inputs\<close>

definition exVersion :: CiliumVersion where
  "exVersion = \<lparr>Version = ''1.16.0'', Revision = ''abc''\<rparr>"

text \<open>A daemon whose kvstore reports a failure.\<close>

definition exKvstoreDown :: Daemon where
  "exKvstoreDown =
     \<lparr>statusResponse =
        zeroStatusResponse\<lparr>Kvstore := Some \<lparr>State = StatusStateFailure, Msg = ''etcd down''\<rparr>\<rparr>,
      clientsetEnabled = True, ciliumHealthPresent = True\<rparr>"

text \<open>
  A daemon without Kubernetes: the client set is disabled, and the Kubernetes field holds
  what \<open>getK8sStatus\<close> returns in that case.
\<close>

definition exNoK8s :: Daemon where
  "exNoK8s =
     \<lparr>statusResponse =
        zeroStatusResponse\<lparr>Kubernetes :=
          Some \<lparr>K8sState = StatusStateDisabled, K8sMsg = [], K8sAPIVersions = []\<rparr>\<rparr>,
      clientsetEnabled = False, ciliumHealthPresent = True\<rparr>"

text \<open>A daemon whose Kubernetes probe reported a failure.\<close>

definition exK8sDown :: Daemon where
  "exK8sDown =
     \<lparr>statusResponse =
        zeroStatusResponse\<lparr>Kubernetes :=
          Some \<lparr>K8sState = StatusStateFailure, K8sMsg = ''timeout'', K8sAPIVersions = []\<rparr>\<rparr>,
      clientsetEnabled = True, ciliumHealthPresent = True\<rparr>"

text \<open>A controller reports a failure when it has a status with a non-empty message.\<close>

definition reportsFailure :: "ControllerStatus \<Rightarrow> bool" where
  "reportsFailure c = (case CStatus c of None \<Rightarrow> False | Some s \<Rightarrow> LastFailureMsg s \<noteq> [])"

text \<open>The health member of the live cluster status, nil when either pointer is nil.\<close>

definition liveCiliumHealth :: "StatusResponse \<Rightarrow> Status option" where
  "liveCiliumHealth live = (case Cluster live of None \<Rightarrow> None | Some c \<Rightarrow> CiliumHealth c)"

definition exController :: "string \<Rightarrow> string \<Rightarrow> ControllerStatus" where
  "exController name msg = \<lparr>Name = name, CStatus = Some \<lparr>LastFailureMsg = msg\<rparr>\<rparr>"

text \<open>Three controllers of which the second failed, besides a few other fields.\<close>

definition exThreeControllers :: Daemon where
  "exThreeControllers =
     \<lparr>statusResponse =
        zeroStatusResponse
          \<lparr>Cluster := Some \<lparr>Self = ''node1'',
                            CiliumHealth = Some \<lparr>State = StatusStateOk, Msg = ''reachable''\<rparr>\<rparr>,
           Controllers := Some [exController ''a'' [], exController ''b'' ''boom'',
                                exController ''c'' []],
           Ipam := Some (IPAMStatus 1)\<rparr>,
      clientsetEnabled = True, ciliumHealthPresent = True\<rparr>"

section \<open>Vocabulary for the sinks\<close>

text \<open>
  Whether the checked type assertion of a probe's sink succeeds on a payload: the
  dynamic type of \<open>Data\<close> is the one the sink names. A nil interface has no dynamic
  type, a nil pointer of the named type has it.
\<close>

definition assertsType :: "Probe \<Rightarrow> Data \<Rightarrow> bool" where
  "assertsType p data =
     (case p of
        ProbeKvstore \<Rightarrow> (case data of DataStatus _ \<Rightarrow> True | _ \<Rightarrow> False)
      | ProbeKubernetes \<Rightarrow> (case data of DataK8sStatus _ \<Rightarrow> True | _ \<Rightarrow> False)
      | ProbeIpam \<Rightarrow> (case data of DataIPAMStatus _ \<Rightarrow> True | _ \<Rightarrow> False)
      | ProbeNodeMonitor \<Rightarrow> (case data of DataMonitorStatus _ \<Rightarrow> True | _ \<Rightarrow> False)
      | ProbeCluster \<Rightarrow> (case data of DataClusterStatus _ \<Rightarrow> True | _ \<Rightarrow> False)
      | ProbeCiliumHealth \<Rightarrow> (case data of DataStatus _ \<Rightarrow> True | _ \<Rightarrow> False)
      | ProbeL7Proxy \<Rightarrow> (case data of DataProxyStatus _ \<Rightarrow> True | _ \<Rightarrow> False)
      | ProbeControllers \<Rightarrow> (case data of DataControllerStatuses _ \<Rightarrow> True | _ \<Rightarrow> False)
      | ProbeClustermesh \<Rightarrow> (case data of DataClusterMeshStatus _ \<Rightarrow> True | _ \<Rightarrow> False)
      | ProbeHubble \<Rightarrow> (case data of DataHubbleStatus _ \<Rightarrow> True | _ \<Rightarrow> False)
      | ProbeEncryption \<Rightarrow> (case data of DataEncryptionStatus _ \<Rightarrow> True | _ \<Rightarrow> False)
      | ProbeKubeProxyReplacement \<Rightarrow>
          (case data of DataKubeProxyReplacement _ \<Rightarrow> True | _ \<Rightarrow> False)
      | ProbeAuthCertProvider \<Rightarrow> (case data of DataStatus _ \<Rightarrow> True | _ \<Rightarrow> False)
      | ProbeCniConfig \<Rightarrow> (case data of DataStatus _ \<Rightarrow> True | _ \<Rightarrow> False))"

text \<open>The sinks with a branch for \<open>status.Err != nil\<close>.\<close>

definition hasErrorChannel :: "Probe \<Rightarrow> bool" where
  "hasErrorChannel p = (p = ProbeKvstore \<or> p = ProbeKubernetes \<or> p = ProbeCiliumHealth)"

text \<open>The members of \<open>models.StatusResponse\<close>, and equality of two responses at one member.\<close>

datatype Field =
    FAttachMode | FAuthCertificateProvider | FBandwidthManager | FBpfMaps | FCilium
  | FClockSource | FCluster | FClusterMesh | FCniChaining | FCniFile | FContainerRuntime
  | FControllers | FDatapathMode | FEncryption | FHostFirewall | FHubble | FIPV4BigTCP
  | FIPV6BigTCP | FIdentityRange | FIpam | FKubeProxyReplacement | FKubernetes | FKvstore
  | FMasquerading | FNodeMonitor | FProxy | FRouting | FSrv6 | FStale

definition sameField :: "Field \<Rightarrow> StatusResponse \<Rightarrow> StatusResponse \<Rightarrow> bool" where
  "sameField f a b =
     (case f of
        FAttachMode \<Rightarrow> AttachMode a = AttachMode b
      | FAuthCertificateProvider \<Rightarrow> AuthCertificateProvider a = AuthCertificateProvider b
      | FBandwidthManager \<Rightarrow> BandwidthManager a = BandwidthManager b
      | FBpfMaps \<Rightarrow> BpfMaps a = BpfMaps b
      | FCilium \<Rightarrow> Cilium a = Cilium b
      | FClockSource \<Rightarrow> ClockSource a = ClockSource b
      | FCluster \<Rightarrow> Cluster a = Cluster b
      | FClusterMesh \<Rightarrow> ClusterMesh a = ClusterMesh b
      | FCniChaining \<Rightarrow> CniChaining a = CniChaining b
      | FCniFile \<Rightarrow> CniFile a = CniFile b
      | FContainerRuntime \<Rightarrow> ContainerRuntime a = ContainerRuntime b
      | FControllers \<Rightarrow> Controllers a = Controllers b
      | FDatapathMode \<Rightarrow> DatapathMode a = DatapathMode b
      | FEncryption \<Rightarrow> Encryption a = Encryption b
      | FHostFirewall \<Rightarrow> HostFirewall a = HostFirewall b
      | FHubble \<Rightarrow> Hubble a = Hubble b
      | FIPV4BigTCP \<Rightarrow> IPV4BigTCP a = IPV4BigTCP b
      | FIPV6BigTCP \<Rightarrow> IPV6BigTCP a = IPV6BigTCP b
      | FIdentityRange \<Rightarrow> IdentityRange a = IdentityRange b
      | FIpam \<Rightarrow> Ipam a = Ipam b
      | FKubeProxyReplacement \<Rightarrow> KubeProxyReplacementF a = KubeProxyReplacementF b
      | FKubernetes \<Rightarrow> Kubernetes a = Kubernetes b
      | FKvstore \<Rightarrow> Kvstore a = Kvstore b
      | FMasquerading \<Rightarrow> Masquerading a = Masquerading b
      | FNodeMonitor \<Rightarrow> NodeMonitor a = NodeMonitor b
      | FProxy \<Rightarrow> Proxy a = Proxy b
      | FRouting \<Rightarrow> Routing a = Routing b
      | FSrv6 \<Rightarrow> Srv6 a = Srv6 b
      | FStale \<Rightarrow> Stale a = Stale b)"

text \<open>The member of \<open>d.statusResponse\<close> that the sink of a probe assigns to.\<close>

definition assignedField :: "Probe \<Rightarrow> Field" where
  "assignedField p =
     (case p of
        ProbeKvstore \<Rightarrow> FKvstore
      | ProbeKubernetes \<Rightarrow> FKubernetes
      | ProbeIpam \<Rightarrow> FIpam
      | ProbeNodeMonitor \<Rightarrow> FNodeMonitor
      | ProbeCluster \<Rightarrow> FCluster
      | ProbeCiliumHealth \<Rightarrow> FCluster
      | ProbeL7Proxy \<Rightarrow> FProxy
      | ProbeControllers \<Rightarrow> FControllers
      | ProbeClustermesh \<Rightarrow> FClusterMesh
      | ProbeHubble \<Rightarrow> FHubble
      | ProbeEncryption \<Rightarrow> FEncryption
      | ProbeKubeProxyReplacement \<Rightarrow> FKubeProxyReplacement
      | ProbeAuthCertProvider \<Rightarrow> FAuthCertificateProvider
      | ProbeCniConfig \<Rightarrow> FCniFile)"

text \<open>
  Modelled from the spec: the collector of package \<open>status\<close> is not among the sources.
  By the specification each probe's loop invokes the probe's update sink synchronously
  after each run, and \<open>WaitForFirstRun\<close> returns once every registered probe has
  completed at least one run-and-sink cycle. The sinks are serialised by
  \<open>statusCollectMutex\<close>, so the aggregate at that moment is the result of a sequence of
  sink calls in which every registered probe occurs. A panic in a sink ends the run.
\<close>

fun applySinks :: "Daemon \<Rightarrow> (Probe \<times> status_Status) list \<Rightarrow> GoPanic + Daemon" where
  "applySinks d [] = Inr d"
| "applySinks d ((p, status) # rest) =
     (case OnStatusUpdate p d status of
        Inl e \<Rightarrow> Inl e
      | Inr d' \<Rightarrow> applySinks d' rest)"

text \<open>
  The field of a probe is populated when the pointer (or slice) the probe's sink
  writes is not nil; for cilium-health that is the \<open>CiliumHealth\<close> member of the
  cluster status.
\<close>

definition populated :: "Probe \<Rightarrow> StatusResponse \<Rightarrow> bool" where
  "populated p r =
     (case p of
        ProbeKvstore \<Rightarrow> Kvstore r \<noteq> None
      | ProbeKubernetes \<Rightarrow> Kubernetes r \<noteq> None
      | ProbeIpam \<Rightarrow> Ipam r \<noteq> None
      | ProbeNodeMonitor \<Rightarrow> NodeMonitor r \<noteq> None
      | ProbeCluster \<Rightarrow> Cluster r \<noteq> None
      | ProbeCiliumHealth \<Rightarrow> liveCiliumHealth r \<noteq> None
      | ProbeL7Proxy \<Rightarrow> Proxy r \<noteq> None
      | ProbeControllers \<Rightarrow> Controllers r \<noteq> None
      | ProbeClustermesh \<Rightarrow> ClusterMesh r \<noteq> None
      | ProbeHubble \<Rightarrow> Hubble r \<noteq> None
      | ProbeEncryption \<Rightarrow> Encryption r \<noteq> None
      | ProbeKubeProxyReplacement \<Rightarrow> KubeProxyReplacementF r \<noteq> None
      | ProbeAuthCertProvider \<Rightarrow> AuthCertificateProvider r \<noteq> None
      | ProbeCniConfig \<Rightarrow> CniFile r \<noteq> None)"

text \<open>The payload has the type the sink asserts and is not a nil pointer or slice.\<close>

definition nonNilPayload :: "Probe \<Rightarrow> Data \<Rightarrow> bool" where
  "nonNilPayload p data =
     (case p of
        ProbeKvstore \<Rightarrow> (case data of DataStatus (Some _) \<Rightarrow> True | _ \<Rightarrow> False)
      | ProbeKubernetes \<Rightarrow> (case data of DataK8sStatus (Some _) \<Rightarrow> True | _ \<Rightarrow> False)
      | ProbeIpam \<Rightarrow> (case data of DataIPAMStatus (Some _) \<Rightarrow> True | _ \<Rightarrow> False)
      | ProbeNodeMonitor \<Rightarrow> (case data of DataMonitorStatus (Some _) \<Rightarrow> True | _ \<Rightarrow> False)
      | ProbeCluster \<Rightarrow> (case data of DataClusterStatus (Some _) \<Rightarrow> True | _ \<Rightarrow> False)
      | ProbeCiliumHealth \<Rightarrow> (case data of DataStatus (Some _) \<Rightarrow> True | _ \<Rightarrow> False)
      | ProbeL7Proxy \<Rightarrow> (case data of DataProxyStatus (Some _) \<Rightarrow> True | _ \<Rightarrow> False)
      | ProbeControllers \<Rightarrow>
          (case data of DataControllerStatuses (Some _) \<Rightarrow> True | _ \<Rightarrow> False)
      | ProbeClustermesh \<Rightarrow>
          (case data of DataClusterMeshStatus (Some _) \<Rightarrow> True | _ \<Rightarrow> False)
      | ProbeHubble \<Rightarrow> (case data of DataHubbleStatus (Some _) \<Rightarrow> True | _ \<Rightarrow> False)
      | ProbeEncryption \<Rightarrow>
          (case data of DataEncryptionStatus (Some _) \<Rightarrow> True | _ \<Rightarrow> False)
      | ProbeKubeProxyReplacement \<Rightarrow>
          (case data of DataKubeProxyReplacement (Some _) \<Rightarrow> True | _ \<Rightarrow> False)
      | ProbeAuthCertProvider \<Rightarrow> (case data of DataStatus (Some _) \<Rightarrow> True | _ \<Rightarrow> False)
      | ProbeCniConfig \<Rightarrow> (case data of DataStatus (Some _) \<Rightarrow> True | _ \<Rightarrow> False))"

text \<open>
  A result that makes the sink write a non-nil value: without error, a non-nil payload of
  the asserted type; with an error, any result for a sink that records errors.
\<close>

definition populating :: "Probe \<Rightarrow> status_Status \<Rightarrow> bool" where
  "populating p status =
     (case Err status of
        None \<Rightarrow> nonNilPayload p (Data status)
      | Some e \<Rightarrow> hasErrorChannel p)"

text \<open>
  A daemon whose response is still the zero value, with and without the health
  subsystem.
\<close>

definition exFresh :: Daemon where
  "exFresh = \<lparr>statusResponse = zeroStatusResponse, clientsetEnabled = True,
              ciliumHealthPresent = True\<rparr>"

definition exNoHealth :: Daemon where
  "exNoHealth = \<lparr>statusResponse = zeroStatusResponse, clientsetEnabled = True,
                 ciliumHealthPresent = False\<rparr>"

text \<open>A result that carries an error and no data.\<close>

definition exTimeout :: status_Status where
  "exTimeout = \<lparr>Data = DataNil, Err = Some ''timeout''\<rparr>"

text \<open>One successful result per probe, of the type the probe returns.\<close>

definition exResult :: "Probe \<Rightarrow> status_Status" where
  "exResult p =
     \<lparr>Data =
        (case p of
           ProbeKvstore \<Rightarrow> DataStatus (Some \<lparr>State = StatusStateDisabled, Msg = []\<rparr>)
         | ProbeKubernetes \<Rightarrow>
             DataK8sStatus (Some \<lparr>K8sState = StatusStateOk, K8sMsg = ''1.30 (v1.30.0) [linux/amd64]'',
                                  K8sAPIVersions = []\<rparr>)
         | ProbeIpam \<Rightarrow> DataIPAMStatus (Some (IPAMStatus 0))
         | ProbeNodeMonitor \<Rightarrow> DataMonitorStatus (Some (MonitorStatus 0))
         | ProbeCluster \<Rightarrow> DataClusterStatus (Some \<lparr>Self = ''node1'', CiliumHealth = None\<rparr>)
         | ProbeCiliumHealth \<Rightarrow> DataStatus (Some \<lparr>State = StatusStateOk, Msg = []\<rparr>)
         | ProbeL7Proxy \<Rightarrow> DataProxyStatus (Some (ProxyStatus 0))
         | ProbeControllers \<Rightarrow> DataControllerStatuses (Some [])
         | ProbeClustermesh \<Rightarrow> DataClusterMeshStatus (Some (ClusterMeshStatus 0))
         | ProbeHubble \<Rightarrow> DataHubbleStatus (Some (HubbleStatus 0))
         | ProbeEncryption \<Rightarrow> DataEncryptionStatus (Some (EncryptionStatus 0))
         | ProbeKubeProxyReplacement \<Rightarrow> DataKubeProxyReplacement (Some (KubeProxyReplacement 0))
         | ProbeAuthCertProvider \<Rightarrow> DataStatus (Some \<lparr>State = StatusStateDisabled, Msg = []\<rparr>)
         | ProbeCniConfig \<Rightarrow> DataStatus (Some \<lparr>State = StatusStateOk, Msg = []\<rparr>)),
      Err = None\<rparr>"

definition exGoodRun :: "(Probe \<times> status_Status) list" where
  "exGoodRun = map (\<lambda>p. (p, exResult p)) probes"

text \<open>
  A first round in registration order on a daemon without L7 proxy, whose probe returns
  \<open>nil, nil\<close>, and the daemon after that round.
\<close>

definition exFirstRun :: "(Probe \<times> status_Status) list" where
  "exFirstRun =
     map (\<lambda>p. (p, if p = ProbeL7Proxy then \<lparr>Data = DataNil, Err = None\<rparr> else exResult p))
       probes"

definition exAfterFirstRun :: Daemon where
  "exAfterFirstRun =
     \<lparr>statusResponse =
        zeroStatusResponse
          \<lparr>AuthCertificateProvider := Some \<lparr>State = StatusStateDisabled, Msg = []\<rparr>,
           Cluster := Some \<lparr>Self = ''node1'',
                            CiliumHealth = Some \<lparr>State = StatusStateOk, Msg = []\<rparr>\<rparr>,
           ClusterMesh := Some (ClusterMeshStatus 0),
           CniFile := Some \<lparr>State = StatusStateOk, Msg = []\<rparr>,
           Controllers := Some [],
           Encryption := Some (EncryptionStatus 0),
           Hubble := Some (HubbleStatus 0),
           Ipam := Some (IPAMStatus 0),
           KubeProxyReplacementF := Some (KubeProxyReplacement 0),
           Kubernetes := Some \<lparr>K8sState = StatusStateOk,
                                K8sMsg = ''1.30 (v1.30.0) [linux/amd64]'', K8sAPIVersions = []\<rparr>,
           Kvstore := Some \<lparr>State = StatusStateDisabled, Msg = []\<rparr>,
           NodeMonitor := Some (MonitorStatus 0)\<rparr>,
      clientsetEnabled = True, ciliumHealthPresent = True\<rparr>"

text \<open>The fresh daemon after the cluster sink, and after the cilium-health sink.\<close>

definition exAfterCluster :: Daemon where
  "exAfterCluster =
     exFresh\<lparr>statusResponse :=
       zeroStatusResponse\<lparr>Cluster := Some \<lparr>Self = ''node1'', CiliumHealth = None\<rparr>\<rparr>\<rparr>"

definition exAfterHealth :: Daemon where
  "exAfterHealth =
     exFresh\<lparr>statusResponse :=
       zeroStatusResponse\<lparr>Cluster :=
         Some \<lparr>Self = [], CiliumHealth = Some \<lparr>State = StatusStateOk, Msg = []\<rparr>\<rparr>\<rparr>\<rparr>"

section \<open>The Kubernetes probe\<close>

text \<open>
  Instants and durations are counted in nanoseconds, as \<open>time.Duration\<close> is.
\<close>

definition Second :: int where
  "Second = 1000000000"

definition Minute :: int where
  "Minute = 60 * Second"

text \<open>
  \<open>time.Since(t)\<close> at the instant \<open>now\<close>. Go saturates the difference at about 292
  years in either direction; the code compares it with one and with fifteen minutes only,
  which saturation does not affect.
\<close>

definition Since :: "int \<Rightarrow> int \<Rightarrow> int" where
  "Since now t = now - t"

definition k8sVersionCheckInterval :: int where
  "k8sVersionCheckInterval = 15 * Minute"

definition k8sMinimumEventHeartbeat :: int where
  "k8sMinimumEventHeartbeat = Minute"

text \<open>The version cache \<open>k8sVersion\<close>; its mutex is held for each whole method.\<close>

record k8sVersion =
  version :: string
  lastVersionCheck :: int

text \<open>
  The clock readings of one call of \<open>getK8sStatus\<close>: inside the first and the second
  \<open>time.Since\<close> of \<open>cachedVersion\<close> and at \<open>time.Now()\<close> in \<open>update\<close>.
\<close>

record Clock =
  atHeartbeatCheck :: int
  atVersionCheck :: int
  atUpdate :: int

definition cachedVersion :: "k8sVersion \<Rightarrow> int \<Rightarrow> Clock \<Rightarrow> string \<times> bool" where
  "cachedVersion k lastSuccessInteraction clock =
     (if Since (atHeartbeatCheck clock) lastSuccessInteraction > k8sMinimumEventHeartbeat
      then ([], False)
      else if version k = []
              \<or> Since (atVersionCheck clock) (lastVersionCheck k) > k8sVersionCheckInterval
      then ([], False)
      else (version k, True))"

text \<open>The members of \<open>version.Info\<close> that \<open>update\<close> formats.\<close>

record versionInfo =
  Major :: string
  Minor :: string
  GitVersion :: string
  Platform :: string

definition update :: "k8sVersion \<Rightarrow> versionInfo \<Rightarrow> Clock \<Rightarrow> string \<times> k8sVersion" where
  "update k info clock =
     (let v = Major info @ ''.'' @ Minor info @ '' ('' @ GitVersion info @ '') [''
                @ Platform info @ '']''
      in (v, k\<lparr>version := v, lastVersionCheck := atUpdate clock\<rparr>))"

text \<open>
  What \<open>getK8sStatus\<close> reads from outside the daemon: the instant of the last
  successful interaction with the API server, the clock, the answer the live query
  \<open>ServerVersion()\<close> gives (an error text or the version), and the API groups.
\<close>

record K8sEnv =
  LastSuccessInteraction :: int
  Now :: Clock
  ServerVersion :: "string + versionInfo"
  GetAPIGroups :: "string list"

text \<open>
  What one call of \<open>getK8sStatus\<close> leaves behind: the status it returns, the version
  cache, and how many live queries it issued.
\<close>

record K8sOutcome =
  k8sStatus :: K8sStatus
  k8sVersionCache :: k8sVersion
  liveQueries :: nat

definition getK8sStatus :: "Daemon \<Rightarrow> k8sVersion \<Rightarrow> K8sEnv \<Rightarrow> K8sOutcome" where
  "getK8sStatus d cache env =
     (if \<not> clientsetEnabled d
      then \<lparr>k8sStatus = \<lparr>K8sState = StatusStateDisabled, K8sMsg = [], K8sAPIVersions = []\<rparr>,
            k8sVersionCache = cache, liveQueries = 0\<rparr>
      else
        (case cachedVersion cache (LastSuccessInteraction env) (Now env) of
           (v, True) \<Rightarrow>
             \<lparr>k8sStatus = \<lparr>K8sState = StatusStateOk, K8sMsg = v,
                            K8sAPIVersions = GetAPIGroups env\<rparr>,
              k8sVersionCache = cache, liveQueries = 0\<rparr>
         | (_, False) \<Rightarrow>
             (case ServerVersion env of
                Inl err \<Rightarrow>
                  \<lparr>k8sStatus = \<lparr>K8sState = StatusStateFailure, K8sMsg = err,
                                 K8sAPIVersions = []\<rparr>,
                   k8sVersionCache = cache, liveQueries = 1\<rparr>
              | Inr info \<Rightarrow>
                  (case update cache info (Now env) of
                     (v, cache') \<Rightarrow>
                       \<lparr>k8sStatus = \<lparr>K8sState = StatusStateOk, K8sMsg = v,
                                      K8sAPIVersions = GetAPIGroups env\<rparr>,
                        k8sVersionCache = cache', liveQueries = 1\<rparr>))))"

text \<open>
  Validity of the cache as the specification words it: the last successful interaction
  is at most one minute old, a version is stored, and the last version check is at most
  fifteen minutes old.
\<close>

definition cacheValid :: "k8sVersion \<Rightarrow> int \<Rightarrow> Clock \<Rightarrow> bool" where
  "cacheValid k lastSuccessInteraction clock =
     (atHeartbeatCheck clock - lastSuccessInteraction \<le> 60 * 1000000000
      \<and> version k \<noteq> []
      \<and> atVersionCheck clock - lastVersionCheck k \<le> 15 * 60 * 1000000000)"

text \<open>
  A clock at 1010 s, a cache filled five seconds before, a server version, and the
  environment for a given instant of the last successful interaction.
\<close>

definition exClock :: Clock where
  "exClock = \<lparr>atHeartbeatCheck = 1010 * Second, atVersionCheck = 1010 * Second,
              atUpdate = 1011 * Second\<rparr>"

definition exCache :: k8sVersion where
  "exCache = \<lparr>version = ''1.30 (v1.30.0) [linux/amd64]'', lastVersionCheck = 1005 * Second\<rparr>"

definition exInfo :: versionInfo where
  "exInfo = \<lparr>Major = ''1'', Minor = ''31'', GitVersion = ''v1.31.0'', Platform = ''linux/amd64''\<rparr>"

definition exEnv :: "int \<Rightarrow> K8sEnv" where
  "exEnv lastSuccess =
     \<lparr>LastSuccessInteraction = lastSuccess, Now = exClock, ServerVersion = Inr exInfo,
      GetAPIGroups = [''apps/v1'']\<rparr>"

definition exEmptyCache :: k8sVersion where
  "exEmptyCache = \<lparr>version = [], lastVersionCheck = 0\<rparr>"

text \<open>
  Modelled from the spec: \<open>backoff.CalculateDuration\<close> is in package \<open>backoff\<close>, which is
  not among the sources. By the specification the delay after \<open>f\<close> failures is
  \<open>base * multiplier^f\<close>, clamped to \<open>[min, max]\<close>; the base is the minimum. The call in
  the kubernetes probe passes the multiplier 2.0 and no jitter, so the product is an
  integer number of nanoseconds.
\<close>

definition CalculateDuration :: "int \<Rightarrow> int \<Rightarrow> int \<Rightarrow> int \<Rightarrow> int" where
  "CalculateDuration minD maxD factor failures =
     max minD (min maxD (minD * factor ^ nat failures))"

text \<open>
  The \<open>Interval\<close> member of the kubernetes probe. \<open>ClusterSizeDependantInterval\<close>
  belongs to the node manager and is an argument.
\<close>

definition kubernetesInterval :: "(int \<Rightarrow> int) \<Rightarrow> int \<Rightarrow> int" where
  "kubernetesInterval ClusterSizeDependantInterval failures =
     (if failures > 0
      then CalculateDuration (5 * Second) (2 * Minute) 2 failures
      else ClusterSizeDependantInterval (10 * Second))"

section \<open>Properties of the rollup\<close>

lemma Cilium_getStatus:
  "Cilium (getStatus d stale ver brief rk) =
     Some (rollup d (map (\<lambda>(p, t). (p, DateTime t)) stale) ver rk)"
  by (simp add: getStatus_def Let_def)

lemma rollup_firstMatching:
  "rollup d stale ver rk =
     firstMatching (priorityOrder d stale ver rk) \<lparr>State = StatusStateOk, Msg = ciliumVer ver\<rparr>"
  by (simp add: rollup_def priorityOrder_def caseStale_def caseKvstore_def
      caseContainerRuntime_def caseKubernetes_def caseCniFile_def caseDefault_def
      withBanner_def isPresentAnd_def Let_def split: option.splits)

lemma priorityOrder_DateTime:
  "priorityOrder d (map (\<lambda>(p, t). (p, DateTime t)) staleProbes) ver rk
     = priorityOrder d staleProbes ver rk"
proof -
  have len: "(map (\<lambda>(p, t). (p, DateTime t)) staleProbes \<noteq> []) = (staleProbes \<noteq> [])"
    by simp
  show ?thesis
    unfolding priorityOrder_def Let_def len ..
qed

text \<open>
  C1. For every daemon state, stale set, version and pair of flags, the verdict that
  \<open>getStatus\<close> stores in \<open>Cilium\<close> is the verdict of the first condition that holds in
  the fixed order stale data, kvstore, container runtime, Kubernetes gate, CNI file,
  and is OK with the banner alone when none holds. In particular, when the stale set
  is non-empty and the kvstore field is failing at the same time, the verdict is Warning
  with the message "Stale status data" after the banner.
\<close>

theorem getStatus_priority_order:
  "Cilium (getStatus d staleProbes ver brief rk) =
     Some (firstMatching (priorityOrder d staleProbes ver rk)
             \<lparr>State = StatusStateOk, Msg = ciliumVer ver\<rparr>)
   \<and> (staleProbes \<noteq> [] \<and> isPresentAnd (Kvstore (statusResponse d))
          (\<lambda>k. State k \<noteq> StatusStateOk \<and> State k \<noteq> StatusStateDisabled)
      \<longrightarrow> Cilium (getStatus d staleProbes ver brief rk) =
            Some \<lparr>State = StatusStateWarning,
                  Msg = ciliumVer ver @ ''    Stale status data''\<rparr>)"
proof -
  have first: "Cilium (getStatus d staleProbes ver brief rk) =
     Some (firstMatching (priorityOrder d staleProbes ver rk)
             \<lparr>State = StatusStateOk, Msg = ciliumVer ver\<rparr>)"
    by (simp only: Cilium_getStatus rollup_firstMatching priorityOrder_DateTime)
  have "staleProbes \<noteq> [] \<Longrightarrow>
    firstMatching (priorityOrder d staleProbes ver rk)
        \<lparr>State = StatusStateOk, Msg = ciliumVer ver\<rparr>
     = \<lparr>State = StatusStateWarning, Msg = ciliumVer ver @ ''    Stale status data''\<rparr>"
    by (simp add: priorityOrder_def Let_def)
  with first show ?thesis by simp
qed

theorem getStatus_priority_order_witness:
  "[(''kvstore'', 7)] \<noteq> ([] :: (string \<times> int) list)
   \<and> isPresentAnd (Kvstore (statusResponse exKvstoreDown))
          (\<lambda>k. State k \<noteq> StatusStateOk \<and> State k \<noteq> StatusStateDisabled)
   \<and> Cilium (getStatus exKvstoreDown [(''kvstore'', 7)] exVersion False True) =
            Some \<lparr>State = StatusStateWarning,
                  Msg = ''1.16.0 (v1.16.0-abc)    Stale status data''\<rparr>"
proof -
  have h: "[(''kvstore'', 7)] \<noteq> ([] :: (string \<times> int) list)
     \<and> isPresentAnd (Kvstore (statusResponse exKvstoreDown))
          (\<lambda>k. State k \<noteq> StatusStateOk \<and> State k \<noteq> StatusStateDisabled)"
    by (simp add: isPresentAnd_def exKvstoreDown_def zeroStatusResponse_def)
  have v: "ciliumVer exVersion = ''1.16.0 (v1.16.0-abc)''"
    by (simp add: ciliumVer_def exVersion_def)
  from getStatus_priority_order [of exKvstoreDown "[(''kvstore'', 7)]" exVersion False True] h
  have "Cilium (getStatus exKvstoreDown [(''kvstore'', 7)] exVersion False True) =
            Some \<lparr>State = StatusStateWarning,
                  Msg = ciliumVer exVersion @ ''    Stale status data''\<rparr>"
    by blast
  with h v show ?thesis by simp
qed

lemma rollup_kubernetes:
  assumes "clientsetEnabled d" and "rk"
    and "Kubernetes (statusResponse d) = Some k" and "K8sState k \<noteq> StatusStateOk"
    and "stale = []"
    and "\<not> isPresentAnd (Kvstore (statusResponse d))
            (\<lambda>s. State s \<noteq> StatusStateOk \<and> State s \<noteq> StatusStateDisabled)"
    and "\<not> isPresentAnd (ContainerRuntime (statusResponse d)) (\<lambda>c. State c \<noteq> StatusStateOk)"
  shows "rollup d stale ver rk =
     \<lparr>State = K8sState k,
      Msg = ciliumVer ver @ ''    Kubernetes service is not ready: '' @ K8sMsg k\<rparr>"
  using assms
  by (auto simp add: rollup_def caseStale_def caseKvstore_def caseContainerRuntime_def
      caseKubernetes_def withBanner_def isPresentAnd_def split: option.splits)

text \<open>
  C6, as amended. Whenever the Kubernetes client set is enabled, the caller requests the
  connectivity gate, the Kubernetes field is present with a state other than OK, the
  stale set is empty, the kvstore field is absent or OK or Disabled, and the container
  runtime field is absent or OK, \<open>getStatus\<close> returns the Kubernetes field's state with
  the message "Kubernetes service is not ready: " followed by the field's message, after
  the version banner and the spacer.
\<close>

theorem getStatus_kubernetes_gate:
  assumes "clientsetEnabled d" and "requireK8sConnectivity"
    and "Kubernetes (statusResponse d) = Some k" and "K8sState k \<noteq> StatusStateOk"
    and "staleProbes = []"
    and "\<not> isPresentAnd (Kvstore (statusResponse d))
            (\<lambda>s. State s \<noteq> StatusStateOk \<and> State s \<noteq> StatusStateDisabled)"
    and "\<not> isPresentAnd (ContainerRuntime (statusResponse d)) (\<lambda>c. State c \<noteq> StatusStateOk)"
  shows "Cilium (getStatus d staleProbes ver brief requireK8sConnectivity) =
     Some \<lparr>State = K8sState k,
           Msg = ciliumVer ver @ ''    Kubernetes service is not ready: '' @ K8sMsg k\<rparr>"
  using assms by (simp add: Cilium_getStatus rollup_kubernetes)

theorem getStatus_kubernetes_gate_witness:
  "clientsetEnabled exK8sDown \<and> True
   \<and> Kubernetes (statusResponse exK8sDown) =
        Some \<lparr>K8sState = StatusStateFailure, K8sMsg = ''timeout'', K8sAPIVersions = []\<rparr>
   \<and> K8sState \<lparr>K8sState = StatusStateFailure, K8sMsg = ''timeout'', K8sAPIVersions = []\<rparr>
        \<noteq> StatusStateOk
   \<and> \<not> isPresentAnd (Kvstore (statusResponse exK8sDown))
            (\<lambda>s. State s \<noteq> StatusStateOk \<and> State s \<noteq> StatusStateDisabled)
   \<and> \<not> isPresentAnd (ContainerRuntime (statusResponse exK8sDown))
            (\<lambda>c. State c \<noteq> StatusStateOk)
   \<and> Cilium (getStatus exK8sDown [] exVersion False True) =
       Some \<lparr>State = StatusStateFailure,
             Msg = ''1.16.0 (v1.16.0-abc)    Kubernetes service is not ready: timeout''\<rparr>"
proof -
  let ?k = "\<lparr>K8sState = StatusStateFailure, K8sMsg = ''timeout'', K8sAPIVersions = []\<rparr>"
  have h1: "clientsetEnabled exK8sDown" by (simp add: exK8sDown_def)
  have h2: "Kubernetes (statusResponse exK8sDown) = Some ?k"
    by (simp add: exK8sDown_def zeroStatusResponse_def)
  have h3: "K8sState ?k \<noteq> StatusStateOk" by simp
  have h4: "\<not> isPresentAnd (Kvstore (statusResponse exK8sDown))
            (\<lambda>s. State s \<noteq> StatusStateOk \<and> State s \<noteq> StatusStateDisabled)"
    by (simp add: exK8sDown_def zeroStatusResponse_def isPresentAnd_def)
  have h5: "\<not> isPresentAnd (ContainerRuntime (statusResponse exK8sDown))
            (\<lambda>c. State c \<noteq> StatusStateOk)"
    by (simp add: exK8sDown_def zeroStatusResponse_def isPresentAnd_def)
  have v: "ciliumVer exVersion = ''1.16.0 (v1.16.0-abc)''"
    by (simp add: ciliumVer_def exVersion_def)
  from getStatus_kubernetes_gate [OF h1 TrueI h2 h3 refl h4 h5, of exVersion False]
  have "Cilium (getStatus exK8sDown [] exVersion False True) =
     Some \<lparr>State = StatusStateFailure,
           Msg = ciliumVer exVersion @ ''    Kubernetes service is not ready: '' @ ''timeout''\<rparr>"
    by simp
  with h1 h2 h3 h4 h5 v show ?thesis by simp
qed

text \<open>
  C6 as stated fails where the client set is disabled: the gate is requested, the
  Kubernetes field is present and Disabled, no earlier case applies, and the verdict is
  OK with the banner alone instead of Disabled with the Kubernetes message.
\<close>

theorem getStatus_kubernetes_gate_counterexample:
  "Kubernetes (statusResponse exNoK8s) =
        Some \<lparr>K8sState = StatusStateDisabled, K8sMsg = [], K8sAPIVersions = []\<rparr>
   \<and> StatusStateDisabled \<noteq> StatusStateOk
   \<and> \<not> isPresentAnd (Kvstore (statusResponse exNoK8s))
            (\<lambda>s. State s \<noteq> StatusStateOk \<and> State s \<noteq> StatusStateDisabled)
   \<and> \<not> isPresentAnd (ContainerRuntime (statusResponse exNoK8s))
            (\<lambda>c. State c \<noteq> StatusStateOk)
   \<and> Cilium (getStatus exNoK8s [] exVersion False True) =
       Some \<lparr>State = StatusStateOk, Msg = ''1.16.0 (v1.16.0-abc)''\<rparr>
   \<and> Cilium (getStatus exNoK8s [] exVersion False True) \<noteq>
       Some \<lparr>State = StatusStateDisabled,
             Msg = ciliumVer exVersion @ ''    Kubernetes service is not ready: '' @ []\<rparr>"
  by (simp add: Cilium_getStatus rollup_def caseStale_def caseKvstore_def
      caseContainerRuntime_def caseKubernetes_def caseCniFile_def caseDefault_def
      exNoK8s_def zeroStatusResponse_def isPresentAnd_def ciliumVer_def exVersion_def)

section \<open>Properties of the brief snapshot\<close>

lemma loop_none:
  "\<forall>c \<in> set cs. \<not> reportsFailure c \<Longrightarrow> minimalControllersLoop cs acc = acc"
  by (induction cs) (auto simp: reportsFailure_def split: option.splits)

lemma loop_first:
  "\<forall>x \<in> set pre. \<not> reportsFailure x \<Longrightarrow> reportsFailure c \<Longrightarrow>
     minimalControllersLoop (pre @ c # post) None = Some [c]"
  by (induction pre) (auto simp: reportsFailure_def split: option.splits)

lemma loop_at_most_one:
  "minimalControllersLoop cs None = None \<or> (\<exists>c. minimalControllersLoop cs None = Some [c])"
proof (cases "\<exists>x \<in> set cs. reportsFailure x")
  case True
  then obtain pre c post where "cs = pre @ c # post" "reportsFailure c"
    "\<forall>x \<in> set pre. \<not> reportsFailure x"
    using split_list_first_prop [of cs reportsFailure] by blast
  then show ?thesis by (simp add: loop_first)
next
  case False
  then show ?thesis by (simp add: loop_none)
qed

lemma csCopy_eq: "csCopy live = zeroClusterStatus\<lparr>CiliumHealth := liveCiliumHealth live\<rparr>"
  by (simp add: csCopy_def liveCiliumHealth_def zeroClusterStatus_def split: option.splits)

lemma Controllers_getStatus_brief:
  "Controllers (getStatus d stale ver True rk) = minimalControllers (statusResponse d)"
  by (simp add: getStatus_def snapshot_def Let_def)

lemma brief_frame:
  "(getStatus d staleProbes ver True rk)\<lparr>Controllers := None, Stale := [], Cilium := None\<rparr>
     = zeroStatusResponse
         \<lparr>Cluster := Some (zeroClusterStatus\<lparr>CiliumHealth := liveCiliumHealth (statusResponse d)\<rparr>)\<rparr>"
  by (simp add: getStatus_def snapshot_def Let_def csCopy_eq zeroStatusResponse_def)

text \<open>
  C2. For every aggregate state, the controller list of a brief snapshot is the one-element
  list of the first controller that reports a non-empty last-failure message, whatever
  precedes it without such a message and whatever follows it; it is the nil list when no
  controller reports one; it never has more than one entry. With three controllers of
  which only the second reports a failure, the list is exactly the second. Apart from
  the controller list, the stale map and the verdict, the brief response is the zero
  response whose cluster status is a fresh one that carries only the copy of the live
  \<open>CiliumHealth\<close> member.
\<close>

theorem getStatus_brief:
  "(\<forall>pre c post.
      Controllers (statusResponse d) = Some (pre @ c # post)
      \<and> (\<forall>x \<in> set pre. \<not> reportsFailure x) \<and> reportsFailure c
      \<longrightarrow> Controllers (getStatus d staleProbes ver True rk) = Some [c])
   \<and> (\<forall>c1 c2 c3.
      Controllers (statusResponse d) = Some [c1, c2, c3]
      \<and> \<not> reportsFailure c1 \<and> reportsFailure c2 \<and> \<not> reportsFailure c3
      \<longrightarrow> Controllers (getStatus d staleProbes ver True rk) = Some [c2])
   \<and> ((\<forall>cs. Controllers (statusResponse d) = Some cs \<longrightarrow> (\<forall>x \<in> set cs. \<not> reportsFailure x))
      \<longrightarrow> Controllers (getStatus d staleProbes ver True rk) = None)
   \<and> (case Controllers (getStatus d staleProbes ver True rk) of
         None \<Rightarrow> True | Some xs \<Rightarrow> length xs \<le> 1)
   \<and> (getStatus d staleProbes ver True rk)
        \<lparr>Controllers := None, Stale := [], Cilium := None\<rparr>
       = zeroStatusResponse
           \<lparr>Cluster := Some (zeroClusterStatus\<lparr>CiliumHealth := liveCiliumHealth (statusResponse d)\<rparr>)\<rparr>"
proof (intro conjI allI impI)
  fix pre c post
  assume "Controllers (statusResponse d) = Some (pre @ c # post)
      \<and> (\<forall>x \<in> set pre. \<not> reportsFailure x) \<and> reportsFailure c"
  then show "Controllers (getStatus d staleProbes ver True rk) = Some [c]"
    by (simp add: Controllers_getStatus_brief minimalControllers_def loop_first)
next
  fix c1 c2 c3
  assume a: "Controllers (statusResponse d) = Some [c1, c2, c3]
      \<and> \<not> reportsFailure c1 \<and> reportsFailure c2 \<and> \<not> reportsFailure c3"
  then have "minimalControllersLoop ([c1] @ c2 # [c3]) None = Some [c2]"
    by (intro loop_first) simp_all
  with a show "Controllers (getStatus d staleProbes ver True rk) = Some [c2]"
    by (simp add: Controllers_getStatus_brief minimalControllers_def)
next
  assume "\<forall>cs. Controllers (statusResponse d) = Some cs \<longrightarrow> (\<forall>x \<in> set cs. \<not> reportsFailure x)"
  then show "Controllers (getStatus d staleProbes ver True rk) = None"
    by (simp add: Controllers_getStatus_brief minimalControllers_def loop_none
        split: option.splits)
next
  show "case Controllers (getStatus d staleProbes ver True rk) of
         None \<Rightarrow> True | Some xs \<Rightarrow> length xs \<le> 1"
    using loop_at_most_one [of "the (Controllers (statusResponse d))"]
    by (auto simp add: Controllers_getStatus_brief minimalControllers_def split: option.splits)
next
  show "(getStatus d staleProbes ver True rk)
        \<lparr>Controllers := None, Stale := [], Cilium := None\<rparr>
       = zeroStatusResponse
           \<lparr>Cluster := Some (zeroClusterStatus\<lparr>CiliumHealth := liveCiliumHealth (statusResponse d)\<rparr>)\<rparr>"
    by (rule brief_frame)
qed

theorem getStatus_brief_witness:
  "Controllers (statusResponse exThreeControllers) =
      Some [exController ''a'' [], exController ''b'' ''boom'', exController ''c'' []]
   \<and> \<not> reportsFailure (exController ''a'' []) \<and> reportsFailure (exController ''b'' ''boom'')
   \<and> \<not> reportsFailure (exController ''c'' [])
   \<and> Controllers (getStatus exThreeControllers [] exVersion True False) =
        Some [exController ''b'' ''boom'']
   \<and> Cluster (getStatus exThreeControllers [] exVersion True False) =
        Some \<lparr>Self = [], CiliumHealth = Some \<lparr>State = StatusStateOk, Msg = ''reachable''\<rparr>\<rparr>
   \<and> Ipam (getStatus exThreeControllers [] exVersion True False) = None"
proof -
  let ?a = "exController ''a'' []" and ?b = "exController ''b'' ''boom''"
    and ?c = "exController ''c'' []"
  have h: "Controllers (statusResponse exThreeControllers) = Some [?a, ?b, ?c]
      \<and> \<not> reportsFailure ?a \<and> reportsFailure ?b \<and> \<not> reportsFailure ?c"
    by (simp add: exThreeControllers_def zeroStatusResponse_def reportsFailure_def
        exController_def)
  note t = getStatus_brief [of exThreeControllers "[]" exVersion False]
  from t h have c: "Controllers (getStatus exThreeControllers [] exVersion True False) = Some [?b]"
    by blast
  from t have f: "(getStatus exThreeControllers [] exVersion True False)
        \<lparr>Controllers := None, Stale := [], Cilium := None\<rparr>
       = zeroStatusResponse
           \<lparr>Cluster := Some (zeroClusterStatus\<lparr>CiliumHealth :=
               liveCiliumHealth (statusResponse exThreeControllers)\<rparr>)\<rparr>"
    by blast
  have "Cluster (getStatus exThreeControllers [] exVersion True False)
      = Cluster ((getStatus exThreeControllers [] exVersion True False)
        \<lparr>Controllers := None, Stale := [], Cilium := None\<rparr>)"
    by simp
  also have "\<dots> = Some \<lparr>Self = [], CiliumHealth = Some \<lparr>State = StatusStateOk, Msg = ''reachable''\<rparr>\<rparr>"
    unfolding f
    by (simp add: liveCiliumHealth_def exThreeControllers_def zeroStatusResponse_def
        zeroClusterStatus_def)
  finally have cl: "Cluster (getStatus exThreeControllers [] exVersion True False)
      = Some \<lparr>Self = [], CiliumHealth = Some \<lparr>State = StatusStateOk, Msg = ''reachable''\<rparr>\<rparr>" .
  have "Ipam (getStatus exThreeControllers [] exVersion True False)
      = Ipam ((getStatus exThreeControllers [] exVersion True False)
        \<lparr>Controllers := None, Stale := [], Cilium := None\<rparr>)"
    by simp
  also have "\<dots> = None"
    unfolding f by (simp add: zeroStatusResponse_def)
  finally have ip: "Ipam (getStatus exThreeControllers [] exVersion True False) = None" .
  from h c cl ip show ?thesis by simp
qed

section \<open>Properties of the update sinks\<close>

lemmas sink_defs =
  OnStatusUpdate_def kvstoreOnStatusUpdate_def kubernetesOnStatusUpdate_def
  ipamOnStatusUpdate_def nodeMonitorOnStatusUpdate_def clusterOnStatusUpdate_def
  ciliumHealthOnStatusUpdate_def l7ProxyOnStatusUpdate_def controllersOnStatusUpdate_def
  clustermeshOnStatusUpdate_def hubbleOnStatusUpdate_def encryptionOnStatusUpdate_def
  kubeProxyReplacementOnStatusUpdate_def authCertProviderOnStatusUpdate_def
  cniConfigOnStatusUpdate_def

lemma sink_error_unchanged:
  "Err st = Some e \<Longrightarrow> \<not> hasErrorChannel p \<Longrightarrow> OnStatusUpdate p d st = Inr d"
  by (cases p) (simp_all add: sink_defs hasErrorChannel_def)

lemma sink_error_kvstore:
  "Err st = Some e \<Longrightarrow>
     OnStatusUpdate ProbeKvstore d st =
       Inr (d\<lparr>statusResponse := (statusResponse d)
              \<lparr>Kvstore := Some \<lparr>State = StatusStateFailure, Msg = e\<rparr>\<rparr>\<rparr>)"
  by (simp add: sink_defs updResponse_def)

lemma sink_error_kubernetes:
  "Err st = Some e \<Longrightarrow>
     OnStatusUpdate ProbeKubernetes d st =
       Inr (d\<lparr>statusResponse := (statusResponse d)
              \<lparr>Kubernetes := Some \<lparr>K8sState = StatusStateFailure, K8sMsg = e,
                                   K8sAPIVersions = []\<rparr>\<rparr>\<rparr>)"
  by (simp add: sink_defs updResponse_def)

lemma sink_error_ciliumHealth:
  "Err st = Some e \<Longrightarrow> ciliumHealthPresent d \<Longrightarrow>
     \<exists>d'. OnStatusUpdate ProbeCiliumHealth d st = Inr d'
        \<and> liveCiliumHealth (statusResponse d') = Some \<lparr>State = StatusStateFailure, Msg = e\<rparr>"
  by (simp add: sink_defs updResponse_def setCiliumHealth_def liveCiliumHealth_def Let_def
      split: option.splits)

lemma sink_absent_health:
  "\<not> ciliumHealthPresent d \<Longrightarrow> OnStatusUpdate ProbeCiliumHealth d st = Inr d"
  by (simp add: sink_defs)

lemma sink_mismatch_no_panic:
  "\<not> assertsType p (Data st) \<Longrightarrow> \<exists>d'. OnStatusUpdate p d st = Inr d'"
  by (cases p; cases "Data st") (simp_all add: sink_defs assertsType_def)

lemma sink_error_no_panic:
  "Err st = Some e \<Longrightarrow> \<exists>d'. OnStatusUpdate p d st = Inr d'"
  by (cases p) (simp_all add: sink_defs)

lemma sink_mismatch_unchanged:
  "Err st = None \<Longrightarrow> \<not> assertsType p (Data st) \<Longrightarrow> p \<noteq> ProbeCiliumHealth \<Longrightarrow>
     OnStatusUpdate p d st = Inr d"
  by (cases p; cases "Data st") (simp_all add: sink_defs assertsType_def)

lemma sink_mismatch_ciliumHealth:
  "Err st = None \<Longrightarrow> \<not> assertsType ProbeCiliumHealth (Data st) \<Longrightarrow>
     OnStatusUpdate ProbeCiliumHealth d st =
       Inr (if ciliumHealthPresent d \<and> Cluster (statusResponse d) = None
            then d\<lparr>statusResponse := (statusResponse d)\<lparr>Cluster := Some zeroClusterStatus\<rparr>\<rparr>
            else d)"
  by (cases "Data st") (simp_all add: sink_defs assertsType_def updResponse_def)

lemma sameField_refl: "sameField f a a"
  by (cases f) (simp_all add: sameField_def)

lemma sameField_upd:
  "f \<noteq> FKvstore \<Longrightarrow> sameField f (r\<lparr>Kvstore := v1\<rparr>) r"
  "f \<noteq> FKubernetes \<Longrightarrow> sameField f (r\<lparr>Kubernetes := v2\<rparr>) r"
  "f \<noteq> FIpam \<Longrightarrow> sameField f (r\<lparr>Ipam := v3\<rparr>) r"
  "f \<noteq> FNodeMonitor \<Longrightarrow> sameField f (r\<lparr>NodeMonitor := v4\<rparr>) r"
  "f \<noteq> FCluster \<Longrightarrow> sameField f (r\<lparr>Cluster := v5\<rparr>) r"
  "f \<noteq> FProxy \<Longrightarrow> sameField f (r\<lparr>Proxy := v6\<rparr>) r"
  "f \<noteq> FControllers \<Longrightarrow> sameField f (r\<lparr>Controllers := v7\<rparr>) r"
  "f \<noteq> FClusterMesh \<Longrightarrow> sameField f (r\<lparr>ClusterMesh := v8\<rparr>) r"
  "f \<noteq> FHubble \<Longrightarrow> sameField f (r\<lparr>Hubble := v9\<rparr>) r"
  "f \<noteq> FEncryption \<Longrightarrow> sameField f (r\<lparr>Encryption := v10\<rparr>) r"
  "f \<noteq> FKubeProxyReplacement \<Longrightarrow> sameField f (r\<lparr>KubeProxyReplacementF := v11\<rparr>) r"
  "f \<noteq> FAuthCertificateProvider \<Longrightarrow> sameField f (r\<lparr>AuthCertificateProvider := v12\<rparr>) r"
  "f \<noteq> FCniFile \<Longrightarrow> sameField f (r\<lparr>CniFile := v13\<rparr>) r"
  by (cases f; simp add: sameField_def)+

lemma sameField_setCiliumHealth:
  "f \<noteq> FCluster \<Longrightarrow> sameField f (setCiliumHealth h r) r"
  by (simp add: setCiliumHealth_def sameField_upd sameField_refl split: option.splits)

lemma sameField_trans: "sameField f a b \<Longrightarrow> sameField f b c \<Longrightarrow> sameField f a c"
  by (cases f) (simp_all add: sameField_def)

lemma statusResponse_updResponse [simp]:
  "statusResponse (updResponse g d) = g (statusResponse d)"
  by (simp add: updResponse_def)

lemma sink_frame:
  assumes "OnStatusUpdate p d st = Inr d'" and "f \<noteq> assignedField p"
  shows "sameField f (statusResponse d') (statusResponse d)"
proof (cases p)
  case ProbeCluster
  with assms show ?thesis
    by (auto simp add: OnStatusUpdate_def clusterOnStatusUpdate_def assignedField_def
        sameField_upd sameField_refl split: if_splits Data.splits option.splits)
next
  case ProbeCiliumHealth
  with assms have f: "f \<noteq> FCluster" by (simp add: assignedField_def)
  have a: "\<And>r v. sameField f (r\<lparr>Cluster := v\<rparr>) r" using f by (simp add: sameField_upd)
  have b: "\<And>r h v. sameField f (setCiliumHealth h (r\<lparr>Cluster := v\<rparr>)) r"
    using sameField_trans [OF sameField_setCiliumHealth [OF f] a] .
  from ProbeCiliumHealth assms show ?thesis
    by (auto simp add: OnStatusUpdate_def ciliumHealthOnStatusUpdate_def Let_def
        a b sameField_setCiliumHealth [OF f] sameField_refl
        split: if_splits Data.splits option.splits)
qed (use assms in \<open>auto simp add: sink_defs assignedField_def sameField_upd sameField_refl
        split: if_splits Data.splits option.splits\<close>)

lemma sink_daemon_frame:
  "OnStatusUpdate p d st = Inr d' \<Longrightarrow>
     clientsetEnabled d' = clientsetEnabled d \<and> ciliumHealthPresent d' = ciliumHealthPresent d"
  by (cases p)
     (auto simp add: sink_defs updResponse_def Let_def
        split: if_splits Data.splits option.splits)

lemma assignedField_shared:
  "p \<noteq> q \<Longrightarrow> assignedField p = assignedField q \<Longrightarrow>
     assignedField p = FCluster
     \<and> (p = ProbeCluster \<and> q = ProbeCiliumHealth \<or> p = ProbeCiliumHealth \<and> q = ProbeCluster)"
  by (cases p; cases q) (simp_all add: assignedField_def)

lemma populating_own_health:
  assumes "populating p st" and "p = ProbeCiliumHealth \<longrightarrow> ciliumHealthPresent d"
  shows "\<exists>d'. OnStatusUpdate p d st = Inr d' \<and> populated p (statusResponse d')"
  using assms
  by (cases p)
     (auto simp add: sink_defs populating_def nonNilPayload_def hasErrorChannel_def
        populated_def liveCiliumHealth_def setCiliumHealth_def Let_def
        split: option.splits Data.splits)

lemma populating_own:
  assumes "populating p st" and "ciliumHealthPresent d"
  shows "\<exists>d'. OnStatusUpdate p d st = Inr d' \<and> populated p (statusResponse d')"
  using assms populating_own_health by blast

lemma populated_sameField:
  "sameField (assignedField p) a b \<Longrightarrow> populated p a = populated p b"
  by (cases p) (simp_all add: sameField_def assignedField_def populated_def liveCiliumHealth_def)

lemma populated_cluster_after_health:
  assumes "OnStatusUpdate ProbeCiliumHealth d st = Inr d'"
    and "populated ProbeCluster (statusResponse d)"
  shows "populated ProbeCluster (statusResponse d')"
  using assms
  by (auto simp add: sink_defs populated_def setCiliumHealth_def Let_def
      split: if_splits option.splits Data.splits)

lemma populated_health_after_cluster:
  assumes "OnStatusUpdate ProbeCluster d st = Inr d'"
    and "populated ProbeCiliumHealth (statusResponse d)"
  shows "populated ProbeCiliumHealth (statusResponse d')"
  using assms
  by (auto simp add: sink_defs populated_def liveCiliumHealth_def
      split: if_splits option.splits Data.splits)

lemma populated_preserved:
  assumes "OnStatusUpdate q d st = Inr d'" and "populated p (statusResponse d)" and "p \<noteq> q"
  shows "populated p (statusResponse d')"
proof (cases "assignedField p = assignedField q")
  case True
  with \<open>p \<noteq> q\<close> have "p = ProbeCluster \<and> q = ProbeCiliumHealth \<or> p = ProbeCiliumHealth \<and> q = ProbeCluster"
    using assignedField_shared by blast
  with assms show ?thesis
    using populated_cluster_after_health populated_health_after_cluster by blast
next
  case False
  with assms(1) have "sameField (assignedField p) (statusResponse d') (statusResponse d)"
    by (rule sink_frame)
  with assms(2) show ?thesis by (simp add: populated_sameField)
qed

lemma applySinks_populates:
  assumes "ciliumHealthPresent d" and "\<forall>(p, st) \<in> set tr. populating p st"
  shows "\<exists>d'. applySinks d tr = Inr d'
           \<and> (\<forall>p. populated p (statusResponse d) \<or> p \<in> fst ` set tr
                  \<longrightarrow> populated p (statusResponse d'))"
  using assms
proof (induction tr arbitrary: d)
  case Nil
  then show ?case by simp
next
  case (Cons x tr)
  obtain q st where x: "x = (q, st)" by (cases x)
  with Cons.prems have pop: "populating q st" by simp
  from populating_own [OF pop Cons.prems(1)]
  obtain d1 where d1: "OnStatusUpdate q d st = Inr d1" "populated q (statusResponse d1)"
    by blast
  have present: "ciliumHealthPresent d1"
    using sink_daemon_frame [OF d1(1)] Cons.prems(1) by simp
  from Cons.prems have "\<forall>(p, st) \<in> set tr. populating p st" by simp
  from Cons.IH [OF present this]
  obtain d' where d': "applySinks d1 tr = Inr d'"
    "\<forall>p. populated p (statusResponse d1) \<or> p \<in> fst ` set tr \<longrightarrow> populated p (statusResponse d')"
    by blast
  have step: "populated p (statusResponse d1)"
    if "populated p (statusResponse d) \<or> p = q" for p
  proof (cases "p = q")
    case True
    with d1 show ?thesis by simp
  next
    case False
    with that populated_preserved [OF d1(1)] show ?thesis by blast
  qed
  have "applySinks d (x # tr) = Inr d'" using x d1 d' by simp
  moreover have "\<forall>p. populated p (statusResponse d) \<or> p \<in> fst ` set (x # tr)
                  \<longrightarrow> populated p (statusResponse d')"
    using d'(2) step x by auto
  ultimately show ?case by blast
qed

lemma probes_all: "p \<in> set probes"
  by (cases p) (simp_all add: probes_def)

lemma applySinks_populated:
  assumes "applySinks d tr = Inr d'" and "p = ProbeCiliumHealth \<longrightarrow> ciliumHealthPresent d"
    and "\<forall>st. (p, st) \<in> set tr \<longrightarrow> populating p st"
    and "populated p (statusResponse d) \<or> p \<in> fst ` set tr"
  shows "populated p (statusResponse d')"
  using assms
proof (induction tr arbitrary: d)
  case Nil
  then show ?case by simp
next
  case (Cons x tr)
  obtain q st where x: "x = (q, st)" by (cases x)
  with Cons.prems(1) obtain d1 where d1: "OnStatusUpdate q d st = Inr d1"
    and rest: "applySinks d1 tr = Inr d'"
    by (auto split: sum.splits)
  have present: "p = ProbeCiliumHealth \<longrightarrow> ciliumHealthPresent d1"
    using sink_daemon_frame [OF d1] Cons.prems(2) by simp
  have "populated p (statusResponse d1) \<or> p \<in> fst ` set tr"
  proof (cases "p = q")
    case True
    with Cons.prems(3) x have "populating p st" by simp
    from populating_own_health [OF this Cons.prems(2)] d1 True show ?thesis by simp
  next
    case False
    with Cons.prems(4) x populated_preserved [OF d1, of p] show ?thesis by auto
  qed
  moreover from Cons.prems(3) have "\<forall>st. (p, st) \<in> set tr \<longrightarrow> populating p st" by simp
  ultimately show ?case using Cons.IH [OF rest present] by blast
qed

text \<open>
  C3, as amended. Let every registered probe have completed at least one run-and-sink
  cycle. Then the field of a probe is populated whenever every result the probe's sink
  received was a populating one: an error-free result with a non-nil payload of the type
  the sink asserts, or, for the kvstore, kubernetes and cilium-health sinks, a result
  that carries an error; for cilium-health the health subsystem must be present. When
  the health subsystem is present and all results of all probes are populating, the run
  does not panic and every field is populated.
\<close>

theorem first_run_populates:
  assumes "set probes \<subseteq> fst ` set tr"
  shows "(\<forall>d' p. applySinks d tr = Inr d'
            \<and> (\<forall>st. (p, st) \<in> set tr \<longrightarrow> populating p st)
            \<and> (p = ProbeCiliumHealth \<longrightarrow> ciliumHealthPresent d)
            \<longrightarrow> populated p (statusResponse d'))
       \<and> (ciliumHealthPresent d \<and> (\<forall>(q, st) \<in> set tr. populating q st)
            \<longrightarrow> (\<exists>d'. applySinks d tr = Inr d' \<and> (\<forall>p. populated p (statusResponse d'))))"
proof (intro conjI allI impI)
  fix d' p
  assume a: "applySinks d tr = Inr d'
            \<and> (\<forall>st. (p, st) \<in> set tr \<longrightarrow> populating p st)
            \<and> (p = ProbeCiliumHealth \<longrightarrow> ciliumHealthPresent d)"
  have "p \<in> fst ` set tr" using assms probes_all by blast
  with a show "populated p (statusResponse d')"
    using applySinks_populated [of d tr d' p] by blast
next
  assume a: "ciliumHealthPresent d \<and> (\<forall>(q, st) \<in> set tr. populating q st)"
  have "\<And>p. p \<in> fst ` set tr" using assms probes_all by blast
  with applySinks_populates [of d tr] a
  show "\<exists>d'. applySinks d tr = Inr d' \<and> (\<forall>p. populated p (statusResponse d'))"
    by blast
qed

lemma exGoodRun_populating: "\<forall>(q, st) \<in> set exGoodRun. populating q st"
  by (simp add: exGoodRun_def probes_def exResult_def populating_def nonNilPayload_def)

theorem first_run_populates_witness:
  "ciliumHealthPresent exFresh \<and> map fst exGoodRun = probes
   \<and> (\<exists>d'. applySinks exFresh exGoodRun = Inr d'
         \<and> populated ProbeL7Proxy (statusResponse d')
         \<and> populated ProbeCiliumHealth (statusResponse d'))"
proof -
  have h1: "ciliumHealthPresent exFresh" by (simp add: exFresh_def)
  have m: "map fst exGoodRun = probes" by (simp add: exGoodRun_def comp_def)
  have h2: "set probes \<subseteq> fst ` set exGoodRun"
    using m by (metis set_map subset_refl)
  from first_run_populates [OF h2, of exFresh] h1 exGoodRun_populating
  have "\<exists>d'. applySinks exFresh exGoodRun = Inr d' \<and> (\<forall>p. populated p (statusResponse d'))"
    by blast
  with h1 m show ?thesis by blast
qed

text \<open>
  C3 as stated fails: after a first round in which every probe ran once and the L7 proxy
  probe returned \<open>nil, nil\<close>, the \<open>Proxy\<close> field is still unset.
\<close>

theorem first_run_populates_counterexample:
  "map fst exFirstRun = probes
   \<and> applySinks exFresh exFirstRun = Inr exAfterFirstRun
   \<and> Proxy (statusResponse exAfterFirstRun) = None
   \<and> \<not> populated ProbeL7Proxy (statusResponse exAfterFirstRun)"
proof -
  have "map fst exFirstRun = probes" by (simp add: exFirstRun_def comp_def)
  moreover have "applySinks exFresh exFirstRun = Inr exAfterFirstRun"
    by (simp add: exFirstRun_def probes_def exResult_def exFresh_def exAfterFirstRun_def
        sink_defs updResponse_def setCiliumHealth_def zeroStatusResponse_def
        zeroClusterStatus_def Let_def)
  moreover have "Proxy (statusResponse exAfterFirstRun) = None"
    by (simp add: exAfterFirstRun_def zeroStatusResponse_def)
  ultimately show ?thesis by (simp add: populated_def)
qed

text \<open>
  C7, as amended. For a result that carries an error \<open>e\<close>: the kvstore and kubernetes
  sinks set their field to a Failure status with message \<open>e\<close>; the cilium-health sink
  does the same with the \<open>CiliumHealth\<close> member when the health subsystem is present and
  leaves the daemon unchanged when it is absent; every other sink leaves the daemon
  unchanged; and no sink panics.
\<close>

theorem sinks_record_errors:
  assumes "Err st = Some e"
  shows "(p = ProbeKvstore \<longrightarrow>
            OnStatusUpdate p d st =
              Inr (d\<lparr>statusResponse := (statusResponse d)
                     \<lparr>Kvstore := Some \<lparr>State = StatusStateFailure, Msg = e\<rparr>\<rparr>\<rparr>))
       \<and> (p = ProbeKubernetes \<longrightarrow>
            OnStatusUpdate p d st =
              Inr (d\<lparr>statusResponse := (statusResponse d)
                     \<lparr>Kubernetes := Some \<lparr>K8sState = StatusStateFailure, K8sMsg = e,
                                          K8sAPIVersions = []\<rparr>\<rparr>\<rparr>))
       \<and> (p = ProbeCiliumHealth \<and> ciliumHealthPresent d \<longrightarrow>
            (\<exists>d'. OnStatusUpdate p d st = Inr d'
                \<and> liveCiliumHealth (statusResponse d') =
                    Some \<lparr>State = StatusStateFailure, Msg = e\<rparr>))
       \<and> (p = ProbeCiliumHealth \<and> \<not> ciliumHealthPresent d \<longrightarrow>
            OnStatusUpdate p d st = Inr d)
       \<and> (\<not> hasErrorChannel p \<longrightarrow> OnStatusUpdate p d st = Inr d)
       \<and> (\<exists>d'. OnStatusUpdate p d st = Inr d')"
proof (intro conjI impI)
  assume "p = ProbeKvstore"
  with assms show "OnStatusUpdate p d st =
              Inr (d\<lparr>statusResponse := (statusResponse d)
                     \<lparr>Kvstore := Some \<lparr>State = StatusStateFailure, Msg = e\<rparr>\<rparr>\<rparr>)"
    by (simp add: sink_error_kvstore)
next
  assume "p = ProbeKubernetes"
  with assms show "OnStatusUpdate p d st =
              Inr (d\<lparr>statusResponse := (statusResponse d)
                     \<lparr>Kubernetes := Some \<lparr>K8sState = StatusStateFailure, K8sMsg = e,
                                          K8sAPIVersions = []\<rparr>\<rparr>\<rparr>)"
    by (simp add: sink_error_kubernetes)
next
  assume "p = ProbeCiliumHealth \<and> ciliumHealthPresent d"
  with assms show "\<exists>d'. OnStatusUpdate p d st = Inr d'
                \<and> liveCiliumHealth (statusResponse d') =
                    Some \<lparr>State = StatusStateFailure, Msg = e\<rparr>"
    by (simp add: sink_error_ciliumHealth)
next
  assume "p = ProbeCiliumHealth \<and> \<not> ciliumHealthPresent d"
  then show "OnStatusUpdate p d st = Inr d"
    by (simp add: sink_absent_health)
next
  assume "\<not> hasErrorChannel p"
  with assms show "OnStatusUpdate p d st = Inr d"
    by (simp add: sink_error_unchanged)
next
  from assms show "\<exists>d'. OnStatusUpdate p d st = Inr d'"
    by (rule sink_error_no_panic)
qed

theorem sinks_record_errors_witness:
  "Err exTimeout = Some ''timeout''
   \<and> Kvstore (statusResponse exFresh) = None
   \<and> OnStatusUpdate ProbeKvstore exFresh exTimeout =
       Inr (exFresh\<lparr>statusResponse := (statusResponse exFresh)
              \<lparr>Kvstore := Some \<lparr>State = StatusStateFailure, Msg = ''timeout''\<rparr>\<rparr>\<rparr>)
   \<and> OnStatusUpdate ProbeKubernetes exFresh exTimeout =
       Inr (exFresh\<lparr>statusResponse := (statusResponse exFresh)
              \<lparr>Kubernetes := Some \<lparr>K8sState = StatusStateFailure, K8sMsg = ''timeout'',
                                   K8sAPIVersions = []\<rparr>\<rparr>\<rparr>)
   \<and> ciliumHealthPresent exFresh
   \<and> (\<exists>d'. OnStatusUpdate ProbeCiliumHealth exFresh exTimeout = Inr d'
          \<and> liveCiliumHealth (statusResponse d') =
               Some \<lparr>State = StatusStateFailure, Msg = ''timeout''\<rparr>)
   \<and> \<not> hasErrorChannel ProbeIpam
   \<and> OnStatusUpdate ProbeIpam exFresh exTimeout = Inr exFresh"
proof -
  have e: "Err exTimeout = Some ''timeout''" by (simp add: exTimeout_def)
  have k: "Kvstore (statusResponse exFresh) = None"
    by (simp add: exFresh_def zeroStatusResponse_def)
  have h: "ciliumHealthPresent exFresh" by (simp add: exFresh_def)
  have n: "\<not> hasErrorChannel ProbeIpam" by (simp add: hasErrorChannel_def)
  from sinks_record_errors [OF e, of ProbeKvstore exFresh]
  have 1: "OnStatusUpdate ProbeKvstore exFresh exTimeout =
       Inr (exFresh\<lparr>statusResponse := (statusResponse exFresh)
              \<lparr>Kvstore := Some \<lparr>State = StatusStateFailure, Msg = ''timeout''\<rparr>\<rparr>\<rparr>)"
    by simp
  from sinks_record_errors [OF e, of ProbeKubernetes exFresh]
  have 2: "OnStatusUpdate ProbeKubernetes exFresh exTimeout =
       Inr (exFresh\<lparr>statusResponse := (statusResponse exFresh)
              \<lparr>Kubernetes := Some \<lparr>K8sState = StatusStateFailure, K8sMsg = ''timeout'',
                                   K8sAPIVersions = []\<rparr>\<rparr>\<rparr>)"
    by simp
  from sinks_record_errors [OF e, of ProbeCiliumHealth exFresh] h
  have 3: "\<exists>d'. OnStatusUpdate ProbeCiliumHealth exFresh exTimeout = Inr d'
          \<and> liveCiliumHealth (statusResponse d') =
               Some \<lparr>State = StatusStateFailure, Msg = ''timeout''\<rparr>"
    by simp
  from sinks_record_errors [OF e, of ProbeIpam exFresh] n
  have 4: "OnStatusUpdate ProbeIpam exFresh exTimeout = Inr exFresh"
    by simp
  from e k h n 1 2 3 4 show ?thesis by simp
qed

text \<open>
  C7 as stated fails for the cilium-health sink of a daemon without health subsystem: the
  result carries an error and the sink writes nothing.
\<close>

theorem sinks_record_errors_counterexample:
  "Err exTimeout = Some ''timeout''
   \<and> OnStatusUpdate ProbeCiliumHealth exNoHealth exTimeout = Inr exNoHealth
   \<and> liveCiliumHealth (statusResponse exNoHealth) = None
   \<and> liveCiliumHealth (statusResponse exNoHealth) \<noteq>
        Some \<lparr>State = StatusStateFailure, Msg = ''timeout''\<rparr>"
  by (simp add: exTimeout_def exNoHealth_def sink_defs liveCiliumHealth_def
      zeroStatusResponse_def)

lemma sink_typed_nil:
  assumes "assertsType p (Data st)" and "\<not> nonNilPayload p (Data st)" and "Err st = None"
    and "p = ProbeCluster \<longrightarrow> Cluster (statusResponse d) = None"
    and "p = ProbeCiliumHealth \<longrightarrow> ciliumHealthPresent d"
  shows "\<exists>d'. OnStatusUpdate p d st = Inr d' \<and> \<not> populated p (statusResponse d')"
  using assms
  by (cases p; cases "Data st")
     (auto simp add: sink_defs assertsType_def nonNilPayload_def populated_def
        liveCiliumHealth_def setCiliumHealth_def Let_def split: option.splits)

lemma sink_total_except:
  assumes "\<not> (p = ProbeCluster \<and> Err st = None \<and> Data st = DataClusterStatus None
             \<and> Cluster (statusResponse d) \<noteq> None)"
  shows "\<exists>d'. OnStatusUpdate p d st = Inr d'"
proof (cases p)
  case ProbeCluster
  with assms show ?thesis
    by (auto simp add: OnStatusUpdate_def clusterOnStatusUpdate_def
        split: Data.splits option.splits)
qed (simp_all add: OnStatusUpdate_def)

text \<open>
  The one result on which a sink panics: the cluster sink dereferences its payload when
  a cluster status is already there, and the payload may be a nil
  \<open>*models.ClusterStatus\<close>.
\<close>

lemma cluster_sink_nil_payload:
  "Err st = None \<Longrightarrow> Data st = DataClusterStatus None \<Longrightarrow>
     Cluster (statusResponse d) = Some c \<Longrightarrow>
     OnStatusUpdate ProbeCluster d st = Inl NilPointerDereference"
  by (simp add: OnStatusUpdate_def clusterOnStatusUpdate_def)

text \<open>
  C10, as amended. For a result whose payload is the nil interface or not of the type
  the sink asserts: no sink panics; when the result carries no error, every sink but
  cilium-health leaves the daemon unchanged, and the cilium-health sink at most allocates
  the empty cluster status (when the health subsystem is present and there is none yet),
  so that the \<open>CiliumHealth\<close> member is as before in every case. A nil pointer or nil
  slice of the asserted type passes the assertion: for an error-free result that carries
  one the sink returns and its field is nil afterwards, for cilium-health when the
  health subsystem is present and for the cluster sink when no cluster status is there
  yet. Without health subsystem the cilium-health sink leaves the daemon unchanged
  whatever the result. For a result that carries an error, whatever its payload, the
  kvstore and kubernetes sinks write a Failure status with the error text, the
  cilium-health sink does so when the health subsystem is present, and every sink
  without error branch leaves the daemon unchanged. On every result other than an
  error-free nil \<open>*models.ClusterStatus\<close> that reaches the cluster sink while a cluster
  status is there, the sink returns without panic.
\<close>

theorem sinks_mismatched_payload:
  "(\<not> assertsType p (Data st) \<longrightarrow>
       (\<exists>d'. OnStatusUpdate p d st = Inr d')
     \<and> (Err st = None \<and> p \<noteq> ProbeCiliumHealth \<longrightarrow> OnStatusUpdate p d st = Inr d)
     \<and> (Err st = None \<and> p = ProbeCiliumHealth \<longrightarrow>
          OnStatusUpdate p d st =
            Inr (if ciliumHealthPresent d \<and> Cluster (statusResponse d) = None
                 then d\<lparr>statusResponse :=
                          (statusResponse d)\<lparr>Cluster := Some zeroClusterStatus\<rparr>\<rparr>
                 else d))
     \<and> (Err st = None \<longrightarrow>
          (\<forall>d'. OnStatusUpdate p d st = Inr d' \<longrightarrow>
             liveCiliumHealth (statusResponse d') = liveCiliumHealth (statusResponse d))))
   \<and> (assertsType p (Data st) \<and> \<not> nonNilPayload p (Data st) \<and> Err st = None
        \<and> (p = ProbeCluster \<longrightarrow> Cluster (statusResponse d) = None)
        \<and> (p = ProbeCiliumHealth \<longrightarrow> ciliumHealthPresent d)
       \<longrightarrow> (\<exists>d'. OnStatusUpdate p d st = Inr d' \<and> \<not> populated p (statusResponse d')))
   \<and> (p = ProbeCiliumHealth \<and> \<not> ciliumHealthPresent d \<longrightarrow> OnStatusUpdate p d st = Inr d)
   \<and> (\<forall>e. Err st = Some e \<longrightarrow>
         (p = ProbeKvstore \<longrightarrow>
            OnStatusUpdate p d st =
              Inr (d\<lparr>statusResponse := (statusResponse d)
                     \<lparr>Kvstore := Some \<lparr>State = StatusStateFailure, Msg = e\<rparr>\<rparr>\<rparr>))
       \<and> (p = ProbeKubernetes \<longrightarrow>
            OnStatusUpdate p d st =
              Inr (d\<lparr>statusResponse := (statusResponse d)
                     \<lparr>Kubernetes := Some \<lparr>K8sState = StatusStateFailure, K8sMsg = e,
                                          K8sAPIVersions = []\<rparr>\<rparr>\<rparr>))
       \<and> (p = ProbeCiliumHealth \<and> ciliumHealthPresent d \<longrightarrow>
            (\<exists>d'. OnStatusUpdate p d st = Inr d'
                \<and> liveCiliumHealth (statusResponse d') =
                    Some \<lparr>State = StatusStateFailure, Msg = e\<rparr>))
       \<and> (\<not> hasErrorChannel p \<longrightarrow> OnStatusUpdate p d st = Inr d))
   \<and> (\<not> (p = ProbeCluster \<and> Err st = None \<and> Data st = DataClusterStatus None
           \<and> Cluster (statusResponse d) \<noteq> None)
       \<longrightarrow> (\<exists>d'. OnStatusUpdate p d st = Inr d'))"
proof -
  have mismatch: "(\<exists>d'. OnStatusUpdate p d st = Inr d')
     \<and> (Err st = None \<and> p \<noteq> ProbeCiliumHealth \<longrightarrow> OnStatusUpdate p d st = Inr d)
     \<and> (Err st = None \<and> p = ProbeCiliumHealth \<longrightarrow>
          OnStatusUpdate p d st =
            Inr (if ciliumHealthPresent d \<and> Cluster (statusResponse d) = None
                 then d\<lparr>statusResponse :=
                          (statusResponse d)\<lparr>Cluster := Some zeroClusterStatus\<rparr>\<rparr>
                 else d))
     \<and> (Err st = None \<longrightarrow>
          (\<forall>d'. OnStatusUpdate p d st = Inr d' \<longrightarrow>
             liveCiliumHealth (statusResponse d') = liveCiliumHealth (statusResponse d)))"
    if m: "\<not> assertsType p (Data st)"
  proof (intro conjI impI allI)
    show "\<exists>d'. OnStatusUpdate p d st = Inr d'"
      using m by (rule sink_mismatch_no_panic)
  next
    assume "Err st = None \<and> p \<noteq> ProbeCiliumHealth"
    with m show "OnStatusUpdate p d st = Inr d"
      by (simp add: sink_mismatch_unchanged)
  next
    assume "Err st = None \<and> p = ProbeCiliumHealth"
    with m show "OnStatusUpdate p d st =
              Inr (if ciliumHealthPresent d \<and> Cluster (statusResponse d) = None
                   then d\<lparr>statusResponse :=
                            (statusResponse d)\<lparr>Cluster := Some zeroClusterStatus\<rparr>\<rparr>
                   else d)"
      using sink_mismatch_ciliumHealth by blast
  next
    fix d'
    assume e: "Err st = None" and r: "OnStatusUpdate p d st = Inr d'"
    show "liveCiliumHealth (statusResponse d') = liveCiliumHealth (statusResponse d)"
    proof (cases "p = ProbeCiliumHealth")
      case True
      with m e r sink_mismatch_ciliumHealth [of st d] show ?thesis
        by (auto simp add: liveCiliumHealth_def zeroClusterStatus_def split: if_splits)
    next
      case False
      with m e r sink_mismatch_unchanged [of st p d] show ?thesis by simp
    qed
  qed
  have typed_nil: "\<exists>d'. OnStatusUpdate p d st = Inr d' \<and> \<not> populated p (statusResponse d')"
    if "assertsType p (Data st) \<and> \<not> nonNilPayload p (Data st) \<and> Err st = None
        \<and> (p = ProbeCluster \<longrightarrow> Cluster (statusResponse d) = None)
        \<and> (p = ProbeCiliumHealth \<longrightarrow> ciliumHealthPresent d)"
    using that sink_typed_nil [of p st d] by blast
  have absent: "OnStatusUpdate p d st = Inr d"
    if "p = ProbeCiliumHealth \<and> \<not> ciliumHealthPresent d"
    using that by (simp add: sink_absent_health)
  have errored: "(p = ProbeKvstore \<longrightarrow>
            OnStatusUpdate p d st =
              Inr (d\<lparr>statusResponse := (statusResponse d)
                     \<lparr>Kvstore := Some \<lparr>State = StatusStateFailure, Msg = e\<rparr>\<rparr>\<rparr>))
       \<and> (p = ProbeKubernetes \<longrightarrow>
            OnStatusUpdate p d st =
              Inr (d\<lparr>statusResponse := (statusResponse d)
                     \<lparr>Kubernetes := Some \<lparr>K8sState = StatusStateFailure, K8sMsg = e,
                                          K8sAPIVersions = []\<rparr>\<rparr>\<rparr>))
       \<and> (p = ProbeCiliumHealth \<and> ciliumHealthPresent d \<longrightarrow>
            (\<exists>d'. OnStatusUpdate p d st = Inr d'
                \<and> liveCiliumHealth (statusResponse d') =
                    Some \<lparr>State = StatusStateFailure, Msg = e\<rparr>))
       \<and> (\<not> hasErrorChannel p \<longrightarrow> OnStatusUpdate p d st = Inr d)"
    if e: "Err st = Some e" for e
  proof (intro conjI impI)
    assume "p = ProbeKvstore"
    with e show "OnStatusUpdate p d st =
              Inr (d\<lparr>statusResponse := (statusResponse d)
                     \<lparr>Kvstore := Some \<lparr>State = StatusStateFailure, Msg = e\<rparr>\<rparr>\<rparr>)"
      by (simp add: sink_error_kvstore)
  next
    assume "p = ProbeKubernetes"
    with e show "OnStatusUpdate p d st =
              Inr (d\<lparr>statusResponse := (statusResponse d)
                     \<lparr>Kubernetes := Some \<lparr>K8sState = StatusStateFailure, K8sMsg = e,
                                          K8sAPIVersions = []\<rparr>\<rparr>\<rparr>)"
      by (simp add: sink_error_kubernetes)
  next
    assume "p = ProbeCiliumHealth \<and> ciliumHealthPresent d"
    with e show "\<exists>d'. OnStatusUpdate p d st = Inr d'
                \<and> liveCiliumHealth (statusResponse d') =
                    Some \<lparr>State = StatusStateFailure, Msg = e\<rparr>"
      by (simp add: sink_error_ciliumHealth)
  next
    assume "\<not> hasErrorChannel p"
    with e show "OnStatusUpdate p d st = Inr d"
      by (simp add: sink_error_unchanged)
  qed
  have total: "\<exists>d'. OnStatusUpdate p d st = Inr d'"
    if "\<not> (p = ProbeCluster \<and> Err st = None \<and> Data st = DataClusterStatus None
           \<and> Cluster (statusResponse d) \<noteq> None)"
    using that by (rule sink_total_except)
  show ?thesis
    apply (intro conjI)
    subgoal using mismatch by (rule impI)
    subgoal using typed_nil by (rule impI)
    subgoal using absent by (rule impI)
    subgoal using errored by (intro allI impI)
    subgoal using total by (rule impI)
    done
qed

theorem sinks_mismatched_payload_witness:
  "\<not> assertsType ProbeKvstore (DataIPAMStatus (Some (IPAMStatus 3)))
   \<and> \<not> assertsType ProbeCiliumHealth DataNil
   \<and> OnStatusUpdate ProbeKvstore exKvstoreDown
        \<lparr>Data = DataIPAMStatus (Some (IPAMStatus 3)), Err = None\<rparr> = Inr exKvstoreDown
   \<and> OnStatusUpdate ProbeCiliumHealth exFresh \<lparr>Data = DataNil, Err = None\<rparr> =
       Inr (exFresh\<lparr>statusResponse :=
                     (statusResponse exFresh)\<lparr>Cluster := Some zeroClusterStatus\<rparr>\<rparr>)
   \<and> assertsType ProbeKvstore (DataStatus None)
   \<and> \<not> nonNilPayload ProbeKvstore (DataStatus None)
   \<and> populated ProbeKvstore (statusResponse exKvstoreDown)
   \<and> (\<exists>d'. OnStatusUpdate ProbeKvstore exKvstoreDown \<lparr>Data = DataStatus None, Err = None\<rparr>
               = Inr d'
          \<and> \<not> populated ProbeKvstore (statusResponse d'))
   \<and> \<not> ciliumHealthPresent exNoHealth
   \<and> OnStatusUpdate ProbeCiliumHealth exNoHealth exTimeout = Inr exNoHealth
   \<and> Err exTimeout = Some ''timeout''
   \<and> OnStatusUpdate ProbeKvstore exFresh exTimeout =
       Inr (exFresh\<lparr>statusResponse := (statusResponse exFresh)
              \<lparr>Kvstore := Some \<lparr>State = StatusStateFailure, Msg = ''timeout''\<rparr>\<rparr>\<rparr>)
   \<and> (\<exists>d'. OnStatusUpdate ProbeCluster exFresh \<lparr>Data = DataClusterStatus None, Err = None\<rparr>
               = Inr d')"
proof -
  let ?other = "\<lparr>Data = DataIPAMStatus (Some (IPAMStatus 3)), Err = None\<rparr>"
  let ?nil = "\<lparr>Data = DataNil, Err = None\<rparr>"
  let ?typedNil = "\<lparr>Data = DataStatus None, Err = None\<rparr>"
  let ?nilCluster = "\<lparr>Data = DataClusterStatus None, Err = None\<rparr>"
  have a: "\<not> assertsType ProbeKvstore (Data ?other)"
    by (simp add: assertsType_def)
  have b: "\<not> assertsType ProbeCiliumHealth (Data ?nil)"
    by (simp add: assertsType_def)
  have c: "ciliumHealthPresent exFresh \<and> Cluster (statusResponse exFresh) = None"
    by (simp add: exFresh_def zeroStatusResponse_def)
  have t: "assertsType ProbeKvstore (Data ?typedNil)"
    "\<not> nonNilPayload ProbeKvstore (Data ?typedNil)"
    by (simp_all add: assertsType_def nonNilPayload_def)
  have pop: "populated ProbeKvstore (statusResponse exKvstoreDown)"
    by (simp add: populated_def exKvstoreDown_def zeroStatusResponse_def)
  have nh: "\<not> ciliumHealthPresent exNoHealth" by (simp add: exNoHealth_def)
  have e: "Err exTimeout = Some ''timeout''" by (simp add: exTimeout_def)
  from sinks_mismatched_payload [THEN conjunct1, of ProbeKvstore ?other exKvstoreDown] a
  have 1: "OnStatusUpdate ProbeKvstore exKvstoreDown ?other = Inr exKvstoreDown"
    by simp
  from sinks_mismatched_payload [THEN conjunct1, of ProbeCiliumHealth ?nil exFresh] b c
  have 2: "OnStatusUpdate ProbeCiliumHealth exFresh ?nil =
       Inr (exFresh\<lparr>statusResponse :=
                     (statusResponse exFresh)\<lparr>Cluster := Some zeroClusterStatus\<rparr>\<rparr>)"
    by simp
  from sinks_mismatched_payload [THEN conjunct2, THEN conjunct1,
      of ProbeKvstore ?typedNil exKvstoreDown] t
  have 3: "\<exists>d'. OnStatusUpdate ProbeKvstore exKvstoreDown ?typedNil = Inr d'
          \<and> \<not> populated ProbeKvstore (statusResponse d')"
    by simp
  from sinks_mismatched_payload [THEN conjunct2, THEN conjunct2, THEN conjunct1,
      of ProbeCiliumHealth exNoHealth exTimeout] nh
  have 4: "OnStatusUpdate ProbeCiliumHealth exNoHealth exTimeout = Inr exNoHealth"
    by simp
  from sinks_mismatched_payload [THEN conjunct2, THEN conjunct2, THEN conjunct2,
      THEN conjunct1, of exTimeout ProbeKvstore exFresh] e
  have 5: "OnStatusUpdate ProbeKvstore exFresh exTimeout =
       Inr (exFresh\<lparr>statusResponse := (statusResponse exFresh)
              \<lparr>Kvstore := Some \<lparr>State = StatusStateFailure, Msg = ''timeout''\<rparr>\<rparr>\<rparr>)"
    by simp
  from sinks_mismatched_payload [THEN conjunct2, THEN conjunct2, THEN conjunct2,
      THEN conjunct2, of ProbeCluster ?nilCluster exFresh] c
  have 6: "\<exists>d'. OnStatusUpdate ProbeCluster exFresh ?nilCluster = Inr d'"
    by simp
  from a b t pop nh e 1 2 3 4 5 6 show ?thesis by simp
qed

text \<open>
  C10 as stated fails for a result with nil data and an error: the kvstore sink writes a
  Failure status into the field.
\<close>

theorem sinks_mismatched_payload_counterexample:
  "\<not> assertsType ProbeKvstore (Data exTimeout)
   \<and> Data exTimeout = DataNil
   \<and> Kvstore (statusResponse exFresh) = None
   \<and> OnStatusUpdate ProbeKvstore exFresh exTimeout =
       Inr (exFresh\<lparr>statusResponse := (statusResponse exFresh)
              \<lparr>Kvstore := Some \<lparr>State = StatusStateFailure, Msg = ''timeout''\<rparr>\<rparr>\<rparr>)
   \<and> OnStatusUpdate ProbeKvstore exFresh exTimeout \<noteq> Inr exFresh"
  by (simp add: exTimeout_def assertsType_def exFresh_def zeroStatusResponse_def
      sink_defs updResponse_def)

lemma keep_self: "\<exists>h. c = c\<lparr>CiliumHealth := h\<rparr>"
  by (rule exI [of _ "CiliumHealth c"]) simp

lemma health_keeps_members:
  assumes "OnStatusUpdate ProbeCiliumHealth d st = Inr d'"
  shows "case Cluster (statusResponse d) of
           Some c \<Rightarrow> \<exists>h. Cluster (statusResponse d') = Some (c\<lparr>CiliumHealth := h\<rparr>)
         | None \<Rightarrow> Cluster (statusResponse d') = None
                  \<or> (\<exists>h. Cluster (statusResponse d') = Some (zeroClusterStatus\<lparr>CiliumHealth := h\<rparr>))"
proof (cases "ciliumHealthPresent d")
  case False
  from False assms have "d' = d" by (simp add: sink_defs)
  then show ?thesis
    by (auto simp add: keep_self split: option.splits)
next
  case True
  show ?thesis
  proof (cases "Cluster (statusResponse d)")
    case None
    with True assms show ?thesis
      by (auto simp add: sink_defs setCiliumHealth_def Let_def zeroClusterStatus_def
          split: option.splits Data.splits)
  next
    case (Some c)
    from Some True assms show ?thesis
      by (auto simp add: sink_defs setCiliumHealth_def Let_def keep_self
          split: option.splits Data.splits)
  qed
qed

lemma cluster_keeps_health:
  assumes "OnStatusUpdate ProbeCluster d st = Inr d'" and "Cluster (statusResponse d) = Some c"
  shows "\<exists>c'. Cluster (statusResponse d') = Some c' \<and> CiliumHealth c' = CiliumHealth c"
  using assms
  by (auto simp add: sink_defs split: if_splits option.splits Data.splits)

text \<open>
  C4, as amended. When the sinks of two distinct probes can both change the same member
  of the response, the member is \<open>Cluster\<close> and the probes are cluster and
  cilium-health. Within \<open>Cluster\<close>, the cilium-health sink changes at most the
  \<open>CiliumHealth\<close> member of an existing cluster status and otherwise allocates an
  empty one, and the cluster sink carries the \<open>CiliumHealth\<close> member of an existing
  cluster status over into the new one.
\<close>

theorem sinks_share_only_cluster:
  "(\<forall>p q d st d' e st' e' f.
      p \<noteq> q
      \<and> OnStatusUpdate p d st = Inr d' \<and> \<not> sameField f (statusResponse d') (statusResponse d)
      \<and> OnStatusUpdate q e st' = Inr e' \<and> \<not> sameField f (statusResponse e') (statusResponse e)
      \<longrightarrow> f = FCluster
          \<and> (p = ProbeCluster \<and> q = ProbeCiliumHealth \<or> p = ProbeCiliumHealth \<and> q = ProbeCluster))
   \<and> (\<forall>d st d' c.
        OnStatusUpdate ProbeCiliumHealth d st = Inr d' \<and> Cluster (statusResponse d) = Some c
        \<longrightarrow> (\<exists>h. Cluster (statusResponse d') = Some (c\<lparr>CiliumHealth := h\<rparr>)))
   \<and> (\<forall>d st d'.
        OnStatusUpdate ProbeCiliumHealth d st = Inr d' \<and> Cluster (statusResponse d) = None
        \<and> Cluster (statusResponse d') \<noteq> None
        \<longrightarrow> (\<exists>h. Cluster (statusResponse d') = Some (zeroClusterStatus\<lparr>CiliumHealth := h\<rparr>)))
   \<and> (\<forall>d st d' c.
        OnStatusUpdate ProbeCluster d st = Inr d' \<and> Cluster (statusResponse d) = Some c
        \<longrightarrow> (\<exists>c'. Cluster (statusResponse d') = Some c' \<and> CiliumHealth c' = CiliumHealth c))"
proof (intro conjI allI impI)
  fix p q d st d' e st' e' f
  assume a: "p \<noteq> q
      \<and> OnStatusUpdate p d st = Inr d' \<and> \<not> sameField f (statusResponse d') (statusResponse d)
      \<and> OnStatusUpdate q e st' = Inr e' \<and> \<not> sameField f (statusResponse e') (statusResponse e)"
  then have "f = assignedField p" using sink_frame [of p d st d' f] by blast
  moreover from a have "f = assignedField q" using sink_frame [of q e st' e' f] by blast
  ultimately have "assignedField p = assignedField q" "f = assignedField p" by simp_all
  with a assignedField_shared [of p q]
  have "f = FCluster
          \<and> (p = ProbeCluster \<and> q = ProbeCiliumHealth \<or> p = ProbeCiliumHealth \<and> q = ProbeCluster)"
    by simp
  then show "f = FCluster" 
    and "p = ProbeCluster \<and> q = ProbeCiliumHealth \<or> p = ProbeCiliumHealth \<and> q = ProbeCluster"
    by simp_all
next
  fix d st d' c
  assume "OnStatusUpdate ProbeCiliumHealth d st = Inr d' \<and> Cluster (statusResponse d) = Some c"
  then show "\<exists>h. Cluster (statusResponse d') = Some (c\<lparr>CiliumHealth := h\<rparr>)"
    using health_keeps_members [of d st d'] by simp
next
  fix d st d'
  assume "OnStatusUpdate ProbeCiliumHealth d st = Inr d' \<and> Cluster (statusResponse d) = None
        \<and> Cluster (statusResponse d') \<noteq> None"
  then show "\<exists>h. Cluster (statusResponse d') = Some (zeroClusterStatus\<lparr>CiliumHealth := h\<rparr>)"
    using health_keeps_members [of d st d'] by auto
next
  fix d st d' c
  assume "OnStatusUpdate ProbeCluster d st = Inr d' \<and> Cluster (statusResponse d) = Some c"
  then show "\<exists>c'. Cluster (statusResponse d') = Some c' \<and> CiliumHealth c' = CiliumHealth c"
    using cluster_keeps_health by blast
qed

lemma ex_cluster_sink:
  "OnStatusUpdate ProbeCluster exFresh (exResult ProbeCluster) = Inr exAfterCluster"
  by (simp add: sink_defs exFresh_def exResult_def exAfterCluster_def updResponse_def
      zeroStatusResponse_def)

lemma ex_health_sink:
  "OnStatusUpdate ProbeCiliumHealth exFresh (exResult ProbeCiliumHealth) = Inr exAfterHealth"
  by (simp add: sink_defs exFresh_def exResult_def exAfterHealth_def updResponse_def
      setCiliumHealth_def zeroClusterStatus_def zeroStatusResponse_def Let_def)

lemma ex_cluster_changed:
  "\<not> sameField FCluster (statusResponse exAfterCluster) (statusResponse exFresh)"
  "\<not> sameField FCluster (statusResponse exAfterHealth) (statusResponse exFresh)"
  by (simp_all add: sameField_def exAfterCluster_def exAfterHealth_def exFresh_def
      zeroStatusResponse_def)

text \<open>
  C4 as stated fails: on the fresh daemon the cluster sink and the cilium-health sink
  both assign the \<open>Cluster\<close> member.
\<close>

theorem sinks_share_only_cluster_counterexample:
  "ProbeCluster \<noteq> ProbeCiliumHealth
   \<and> OnStatusUpdate ProbeCluster exFresh (exResult ProbeCluster) = Inr exAfterCluster
   \<and> Cluster (statusResponse exAfterCluster) \<noteq> Cluster (statusResponse exFresh)
   \<and> OnStatusUpdate ProbeCiliumHealth exFresh (exResult ProbeCiliumHealth) = Inr exAfterHealth
   \<and> Cluster (statusResponse exAfterHealth) \<noteq> Cluster (statusResponse exFresh)"
  using ex_cluster_sink ex_health_sink ex_cluster_changed
  by (simp add: sameField_def)

theorem sinks_share_only_cluster_witness:
  "ProbeKvstore \<noteq> ProbeCiliumHealth
   \<and> OnStatusUpdate ProbeCiliumHealth exFresh (exResult ProbeCiliumHealth) = Inr exAfterHealth
   \<and> \<not> sameField FCluster (statusResponse exAfterHealth) (statusResponse exFresh)
   \<and> (\<exists>d'. OnStatusUpdate ProbeKvstore exFresh (exResult ProbeKvstore) = Inr d'
          \<and> sameField FCluster (statusResponse d') (statusResponse exFresh))
   \<and> (\<exists>h. Cluster (statusResponse exAfterHealth) = Some (zeroClusterStatus\<lparr>CiliumHealth := h\<rparr>))"
proof -
  note t = sinks_share_only_cluster
  obtain d' where k: "OnStatusUpdate ProbeKvstore exFresh (exResult ProbeKvstore) = Inr d'"
    by (simp add: OnStatusUpdate_def)
  have ne: "ProbeKvstore \<noteq> ProbeCiliumHealth" by simp
  have "sameField FCluster (statusResponse d') (statusResponse exFresh)"
  proof (rule ccontr)
    assume "\<not> sameField FCluster (statusResponse d') (statusResponse exFresh)"
    with ne k ex_health_sink ex_cluster_changed(2)
    have "ProbeKvstore = ProbeCluster \<and> ProbeCiliumHealth = ProbeCiliumHealth
        \<or> ProbeKvstore = ProbeCiliumHealth \<and> ProbeCiliumHealth = ProbeCluster"
      using t [THEN conjunct1, rule_format,
          of ProbeKvstore ProbeCiliumHealth exFresh "exResult ProbeKvstore" d'
             FCluster exFresh "exResult ProbeCiliumHealth" exAfterHealth]
      by simp
    then show False by simp
  qed
  with k have 1: "\<exists>d'. OnStatusUpdate ProbeKvstore exFresh (exResult ProbeKvstore) = Inr d'
          \<and> sameField FCluster (statusResponse d') (statusResponse exFresh)"
    by blast
  have n: "Cluster (statusResponse exFresh) = None"
    by (simp add: exFresh_def zeroStatusResponse_def)
  have s: "Cluster (statusResponse exAfterHealth) \<noteq> None"
    by (simp add: exAfterHealth_def)
  from ex_health_sink n s
  have 2: "\<exists>h. Cluster (statusResponse exAfterHealth) = Some (zeroClusterStatus\<lparr>CiliumHealth := h\<rparr>)"
    using t [THEN conjunct2, THEN conjunct2, THEN conjunct1, rule_format,
        of exFresh "exResult ProbeCiliumHealth" exAfterHealth]
    by simp
  from ne ex_health_sink ex_cluster_changed(2) 1 2 show ?thesis by blast
qed

section \<open>Properties of the Kubernetes probe\<close>

lemma cachedVersion_valid:
  "snd (cachedVersion k ls clk) = cacheValid k ls clk"
  by (auto simp add: cachedVersion_def cacheValid_def Since_def k8sMinimumEventHeartbeat_def
      k8sVersionCheckInterval_def Minute_def Second_def)

lemma cachedVersion_fst:
  "fst (cachedVersion k ls clk) = (if cacheValid k ls clk then version k else [])"
  by (auto simp add: cachedVersion_def cacheValid_def Since_def k8sMinimumEventHeartbeat_def
      k8sVersionCheckInterval_def Minute_def Second_def)

lemma cachedVersion_eq:
  "cachedVersion k ls clk = (if cacheValid k ls clk then (version k, True) else ([], False))"
  using cachedVersion_valid [of k ls clk] cachedVersion_fst [of k ls clk]
  by (simp add: prod_eq_iff)

text \<open>
  C5, as amended. \<open>cachedVersion\<close> reports a valid value exactly when the last
  successful interaction is at most one minute old, the stored version is non-empty and
  the last version check is at most fifteen minutes old, and then returns the stored
  version; a heartbeat older than one minute makes it invalid whatever the age of the
  version. When the client set is enabled: with a valid cache \<open>getK8sStatus\<close> returns
  the cached version and issues no live query; with an invalid one it issues one live
  query, and either stores and returns the freshly formatted version or, when the query
  fails, returns Failure with the error text and leaves the cache alone. When the client
  set is disabled \<open>getK8sStatus\<close> returns Disabled without any query.
\<close>

theorem version_memoizer:
  "(snd (cachedVersion k ls clk) = cacheValid k ls clk)
   \<and> (cacheValid k ls clk \<longrightarrow> cachedVersion k ls clk = (version k, True))
   \<and> (atHeartbeatCheck clk - ls > 60 * 1000000000 \<longrightarrow> cachedVersion k ls clk = ([], False))
   \<and> (clientsetEnabled d \<and> LastSuccessInteraction env = ls \<and> Now env = clk
        \<and> cacheValid k ls clk \<longrightarrow>
        getK8sStatus d k env =
          \<lparr>k8sStatus = \<lparr>K8sState = StatusStateOk, K8sMsg = version k,
                         K8sAPIVersions = GetAPIGroups env\<rparr>,
           k8sVersionCache = k, liveQueries = 0\<rparr>)
   \<and> (clientsetEnabled d \<and> LastSuccessInteraction env = ls \<and> Now env = clk
        \<and> \<not> cacheValid k ls clk \<longrightarrow>
        liveQueries (getK8sStatus d k env) = 1
        \<and> (\<forall>info. ServerVersion env = Inr info \<longrightarrow>
              getK8sStatus d k env =
                \<lparr>k8sStatus = \<lparr>K8sState = StatusStateOk, K8sMsg = fst (update k info clk),
                               K8sAPIVersions = GetAPIGroups env\<rparr>,
                 k8sVersionCache =
                   \<lparr>version = fst (update k info clk), lastVersionCheck = atUpdate clk\<rparr>,
                 liveQueries = 1\<rparr>)
        \<and> (\<forall>err. ServerVersion env = Inl err \<longrightarrow>
              getK8sStatus d k env =
                \<lparr>k8sStatus = \<lparr>K8sState = StatusStateFailure, K8sMsg = err,
                               K8sAPIVersions = []\<rparr>,
                 k8sVersionCache = k, liveQueries = 1\<rparr>))
   \<and> (\<not> clientsetEnabled d \<longrightarrow>
        getK8sStatus d k env =
          \<lparr>k8sStatus = \<lparr>K8sState = StatusStateDisabled, K8sMsg = [], K8sAPIVersions = []\<rparr>,
           k8sVersionCache = k, liveQueries = 0\<rparr>)"
proof (intro conjI impI allI)
  show "snd (cachedVersion k ls clk) = cacheValid k ls clk"
    by (rule cachedVersion_valid)
next
  assume "cacheValid k ls clk"
  then show "cachedVersion k ls clk = (version k, True)"
    by (simp add: cachedVersion_eq)
next
  assume "atHeartbeatCheck clk - ls > 60 * 1000000000"
  then have "\<not> cacheValid k ls clk" by (simp add: cacheValid_def)
  then show "cachedVersion k ls clk = ([], False)"
    by (simp add: cachedVersion_eq)
next
  assume "clientsetEnabled d \<and> LastSuccessInteraction env = ls \<and> Now env = clk
        \<and> cacheValid k ls clk"
  then show "getK8sStatus d k env =
          \<lparr>k8sStatus = \<lparr>K8sState = StatusStateOk, K8sMsg = version k,
                         K8sAPIVersions = GetAPIGroups env\<rparr>,
           k8sVersionCache = k, liveQueries = 0\<rparr>"
    by (simp add: getK8sStatus_def cachedVersion_eq)
next
  assume a: "clientsetEnabled d \<and> LastSuccessInteraction env = ls \<and> Now env = clk
        \<and> \<not> cacheValid k ls clk"
  then show "liveQueries (getK8sStatus d k env) = 1"
    by (simp add: getK8sStatus_def cachedVersion_eq split: sum.splits prod.splits)
  fix info
  assume "ServerVersion env = Inr info"
  with a show "getK8sStatus d k env =
                \<lparr>k8sStatus = \<lparr>K8sState = StatusStateOk, K8sMsg = fst (update k info clk),
                               K8sAPIVersions = GetAPIGroups env\<rparr>,
                 k8sVersionCache =
                   \<lparr>version = fst (update k info clk), lastVersionCheck = atUpdate clk\<rparr>,
                 liveQueries = 1\<rparr>"
    by (simp add: getK8sStatus_def cachedVersion_eq update_def Let_def)
next
  fix err
  assume "clientsetEnabled d \<and> LastSuccessInteraction env = ls \<and> Now env = clk
        \<and> \<not> cacheValid k ls clk" and "ServerVersion env = Inl err"
  then show "getK8sStatus d k env =
                \<lparr>k8sStatus = \<lparr>K8sState = StatusStateFailure, K8sMsg = err,
                               K8sAPIVersions = []\<rparr>,
                 k8sVersionCache = k, liveQueries = 1\<rparr>"
    by (simp add: getK8sStatus_def cachedVersion_eq)
next
  assume "\<not> clientsetEnabled d"
  then show "getK8sStatus d k env =
          \<lparr>k8sStatus = \<lparr>K8sState = StatusStateDisabled, K8sMsg = [], K8sAPIVersions = []\<rparr>,
           k8sVersionCache = k, liveQueries = 0\<rparr>"
    by (simp add: getK8sStatus_def)
qed

theorem version_memoizer_witness:
  "clientsetEnabled exK8sDown
   \<and> cacheValid exCache (1000 * Second) exClock
   \<and> getK8sStatus exK8sDown exCache (exEnv (1000 * Second)) =
        \<lparr>k8sStatus = \<lparr>K8sState = StatusStateOk, K8sMsg = ''1.30 (v1.30.0) [linux/amd64]'',
                       K8sAPIVersions = [''apps/v1'']\<rparr>,
         k8sVersionCache = exCache, liveQueries = 0\<rparr>
   \<and> 1010 * Second - 900 * Second > 60 * 1000000000
   \<and> \<not> cacheValid exCache (900 * Second) exClock
   \<and> cachedVersion exCache (900 * Second) exClock = ([], False)
   \<and> getK8sStatus exK8sDown exCache (exEnv (900 * Second)) =
        \<lparr>k8sStatus = \<lparr>K8sState = StatusStateOk, K8sMsg = ''1.31 (v1.31.0) [linux/amd64]'',
                       K8sAPIVersions = [''apps/v1'']\<rparr>,
         k8sVersionCache =
           \<lparr>version = ''1.31 (v1.31.0) [linux/amd64]'', lastVersionCheck = 1011 * Second\<rparr>,
         liveQueries = 1\<rparr>"
proof -
  have en: "clientsetEnabled exK8sDown" by (simp add: exK8sDown_def)
  have v: "cacheValid exCache (1000 * Second) exClock"
    by (simp add: cacheValid_def exCache_def exClock_def Second_def)
  have old: "atHeartbeatCheck exClock - 900 * Second > 60 * 1000000000"
    by (simp add: exClock_def Second_def)
  have nv: "\<not> cacheValid exCache (900 * Second) exClock"
    by (simp add: cacheValid_def exCache_def exClock_def Second_def)
  have env: "\<And>ls. LastSuccessInteraction (exEnv ls) = ls" "\<And>ls. Now (exEnv ls) = exClock"
    "\<And>ls. ServerVersion (exEnv ls) = Inr exInfo" "\<And>ls. GetAPIGroups (exEnv ls) = [''apps/v1'']"
    by (simp_all add: exEnv_def)
  have u: "fst (update exCache exInfo exClock) = ''1.31 (v1.31.0) [linux/amd64]''"
    "atUpdate exClock = 1011 * Second"
    by (simp_all add: update_def exInfo_def exClock_def Let_def)
  note t1 = version_memoizer [of exCache "1000 * Second" exClock exK8sDown "exEnv (1000 * Second)"]
  note t2 = version_memoizer [of exCache "900 * Second" exClock exK8sDown "exEnv (900 * Second)"]
  from t1 en v env
  have 1: "getK8sStatus exK8sDown exCache (exEnv (1000 * Second)) =
        \<lparr>k8sStatus = \<lparr>K8sState = StatusStateOk, K8sMsg = version exCache,
                       K8sAPIVersions = [''apps/v1'']\<rparr>,
         k8sVersionCache = exCache, liveQueries = 0\<rparr>"
    by simp
  from t2 old have 2: "cachedVersion exCache (900 * Second) exClock = ([], False)"
    by blast
  from t2 en nv env u
  have 3: "getK8sStatus exK8sDown exCache (exEnv (900 * Second)) =
        \<lparr>k8sStatus = \<lparr>K8sState = StatusStateOk, K8sMsg = ''1.31 (v1.31.0) [linux/amd64]'',
                       K8sAPIVersions = [''apps/v1'']\<rparr>,
         k8sVersionCache =
           \<lparr>version = ''1.31 (v1.31.0) [linux/amd64]'', lastVersionCheck = 1011 * Second\<rparr>,
         liveQueries = 1\<rparr>"
    by simp
  have o: "1010 * Second - 900 * Second > 60 * 1000000000" by (simp add: Second_def)
  have vc: "version exCache = ''1.30 (v1.30.0) [linux/amd64]''" by (simp add: exCache_def)
  from en v 1 o nv 2 3 vc show ?thesis by simp
qed

text \<open>
  C5 as stated fails when the client set is disabled: the cache is invalid, a live query
  would succeed, and \<open>getK8sStatus\<close> neither queries nor refreshes the cache.
\<close>

theorem version_memoizer_counterexample:
  "\<not> cacheValid exEmptyCache 0 exClock
   \<and> ServerVersion (exEnv 0) = Inr exInfo
   \<and> getK8sStatus exNoK8s exEmptyCache (exEnv 0) =
        \<lparr>k8sStatus = \<lparr>K8sState = StatusStateDisabled, K8sMsg = [], K8sAPIVersions = []\<rparr>,
         k8sVersionCache = exEmptyCache, liveQueries = 0\<rparr>
   \<and> liveQueries (getK8sStatus exNoK8s exEmptyCache (exEnv 0)) \<noteq> 1
   \<and> k8sVersionCache (getK8sStatus exNoK8s exEmptyCache (exEnv 0)) = exEmptyCache"
  by (simp add: cacheValid_def exEmptyCache_def exEnv_def getK8sStatus_def exNoK8s_def)

lemma interval_failing:
  "0 < f \<Longrightarrow> kubernetesInterval csi f = min (120 * 1000000000) (5 * 1000000000 * 2 ^ nat f)"
  by (simp add: kubernetesInterval_def CalculateDuration_def Second_def Minute_def max_def min_def)

lemma pow_step: "0 < f \<Longrightarrow> (2::int) ^ nat (f + 1) = 2 * 2 ^ nat f"
  by (simp add: nat_add_distrib)

lemma pow_large: "5 \<le> f \<Longrightarrow> (32::int) \<le> 2 ^ nat f"
proof -
  assume "5 \<le> f"
  then have "(2::int) ^ 5 \<le> 2 ^ nat f"
    by (intro power_increasing) simp_all
  then show ?thesis by simp
qed

text \<open>
  C9. For every failure count \<open>f > 0\<close> the interval of the kubernetes probe is
  \<open>5 s * 2^f\<close> cut off at 2 minutes: it is at least 5 seconds, at most 2 minutes, and
  never decreases from \<open>f\<close> to \<open>f + 1\<close>; below five failures it is exactly
  \<open>5 s * 2^f\<close> and grows strictly, from five failures on it is 2 minutes.
\<close>

theorem kubernetes_backoff:
  assumes "0 < f"
  shows "kubernetesInterval csi f = min (120 * 1000000000) (5 * 1000000000 * 2 ^ nat f)
       \<and> 5 * 1000000000 \<le> kubernetesInterval csi f
       \<and> kubernetesInterval csi f \<le> 120 * 1000000000
       \<and> kubernetesInterval csi f \<le> kubernetesInterval csi (f + 1)
       \<and> (f < 5 \<longrightarrow> kubernetesInterval csi f = 5 * 1000000000 * 2 ^ nat f
                    \<and> kubernetesInterval csi f < kubernetesInterval csi (f + 1))
       \<and> (5 \<le> f \<longrightarrow> kubernetesInterval csi f = 120 * 1000000000)"
proof -
  define x :: int where "x = 2 ^ nat f"
  have x1: "1 \<le> x" unfolding x_def by simp
  have cur: "kubernetesInterval csi f = min (120 * 1000000000) (5 * 1000000000 * x)"
    using assms by (simp add: interval_failing x_def)
  have nxt: "kubernetesInterval csi (f + 1) = min (120 * 1000000000) (5 * 1000000000 * (2 * x))"
    using assms by (simp add: interval_failing pow_step x_def)
  have small: "x \<le> 16" if "f < 5"
  proof -
    from that have "nat f \<le> 4" by simp
    then have "(2::int) ^ nat f \<le> 2 ^ 4" by (intro power_increasing) simp_all
    then show ?thesis by (simp add: x_def)
  qed
  have large: "32 \<le> x" if "5 \<le> f"
    using that pow_large by (simp add: x_def)
  have 1: "kubernetesInterval csi f = min (120 * 1000000000) (5 * 1000000000 * 2 ^ nat f)"
    using cur by (simp add: x_def)
  have 2: "5 * 1000000000 \<le> kubernetesInterval csi f"
    using x1 by (simp add: cur)
  have 3: "kubernetesInterval csi f \<le> 120 * 1000000000"
    by (simp add: cur)
  have 4: "kubernetesInterval csi f \<le> kubernetesInterval csi (f + 1)"
    using x1 by (simp add: cur nxt min_def)
  have 5: "kubernetesInterval csi f = 5 * 1000000000 * 2 ^ nat f
         \<and> kubernetesInterval csi f < kubernetesInterval csi (f + 1)" if "f < 5"
  proof -
    from small [OF that] x1 have "kubernetesInterval csi f = 5 * 1000000000 * x"
      and "kubernetesInterval csi f < kubernetesInterval csi (f + 1)"
      by (simp_all add: cur nxt min_def)
    then show ?thesis by (simp add: x_def)
  qed
  have 6: "kubernetesInterval csi f = 120 * 1000000000" if "5 \<le> f"
    using large [OF that] by (simp add: cur min_def)
  from 1 2 3 4 5 6 show ?thesis by blast
qed

theorem kubernetes_backoff_witness:
  "(0::int) < 3
   \<and> kubernetesInterval (\<lambda>base. base) 3 = 40 * Second
   \<and> kubernetesInterval (\<lambda>base. base) 3 < kubernetesInterval (\<lambda>base. base) (3 + 1)
   \<and> (0::int) < 7
   \<and> kubernetesInterval (\<lambda>base. base) 7 = 2 * Minute
   \<and> kubernetesInterval (\<lambda>base. base) 7 \<le> kubernetesInterval (\<lambda>base. base) (7 + 1)"
proof -
  have a: "(0::int) < 3" and b: "(0::int) < 7" by simp_all
  from kubernetes_backoff [OF a, of "\<lambda>base. base"]
  have 1: "kubernetesInterval (\<lambda>base. base) 3 = 40 * Second"
    and 2: "kubernetesInterval (\<lambda>base. base) 3 < kubernetesInterval (\<lambda>base. base) (3 + 1)"
    by (simp_all add: Second_def)
  from kubernetes_backoff [OF b, of "\<lambda>base. base"]
  have 3: "kubernetesInterval (\<lambda>base. base) 7 = 2 * Minute"
    and 4: "kubernetesInterval (\<lambda>base. base) 7 \<le> kubernetesInterval (\<lambda>base. base) (7 + 1)"
    by (simp_all add: Second_def Minute_def)
  from 1 2 3 4 show ?thesis by simp
qed

end
